theory Spec2Isabelle
  imports Complex_Main
begin

section \<open>Hartley: the action resolution and execution pipeline\<close>

text \<open>
  The repository holds several iterations of one Go program. Two of them are embedded here:
  \<^item> the prefix-dispatching server (the second program of \<^verbatim>\<open>src/unnamed/part_000\<close>), with
    \<^verbatim>\<open>parsePrefix\<close>, \<^verbatim>\<open>handlePythonCommand\<close>, \<^verbatim>\<open>handleShellCommand\<close>,
    \<^verbatim>\<open>handleConversational\<close> and \<^verbatim>\<open>extractValidJSON\<close>;
  \<^item> \<^verbatim>\<open>src/hartley-main.go\<close>, whose handler has no prefixes and reads its prompt from
    \<^verbatim>\<open>systemPrompt.txt\<close> on every request.
  \<^verbatim>\<open>runPython\<close>, \<^verbatim>\<open>geminiRespToMap\<close>, \<^verbatim>\<open>jsonResponse\<close> and \<^verbatim>\<open>logToDB\<close> are the same text
  in both.

  Everything outside the repository (the Go standard library's JSON codec, process
  execution, HTTP client, file system, SQL driver) is a field of the record \<open>env\<close>: a
  function from the arguments of the call to its result, about which nothing is assumed.
  Every call with an effect is also written to a trace of events, in program order.
\<close>

subsection \<open>Data\<close>

text \<open>
  A value that \<^verbatim>\<open>encoding/json\<close> decodes into \<^verbatim>\<open>interface{}\<close>. A number is a finite
  \<^verbatim>\<open>float64\<close>, carried as the real number it denotes; no definition computes with it.
  A \<^verbatim>\<open>map[string]interface{}\<close> is an association list; a nil map and an empty map are both
  the empty list (they differ only in what \<^verbatim>\<open>json.Marshal\<close> prints for them).
\<close>

datatype json =
    JNull
  | JBool bool
  | JNumber real
  | JString string
  | JArray "json list"
  | JObject "(string \<times> json) list"

type_synonym jsonmap = "(string \<times> json) list"

text \<open>A Go \<^verbatim>\<open>error\<close>: whether \<^verbatim>\<open>errors.Is(err, exec.ErrNotFound)\<close> holds, and its text.\<close>

datatype go_error = GoError (is_ErrNotFound: bool) (err_text: string)

text \<open>A Go computation either returns or panics (index out of range).\<close>

datatype 'a go = Ret 'a | Panic

record Config =
  ServerPort :: int
  GeminiAPIKey :: string
  GeminiEndpoint :: string

record Action =
  Name :: string
  Description :: string
  Script :: string
  Function :: string

record ActionRequest =
  Action :: string
  Params :: jsonmap

record GeminiPart =
  Text :: string

record GeminiContent =
  Parts :: "GeminiPart list"
  Role :: string

record GeminiCandidate =
  Content :: GeminiContent
  FinishReason :: string

record GeminiResponse =
  Candidates :: "GeminiCandidate list"

subsection \<open>The outside world\<close>

record env =
  decode_request :: "string \<Rightarrow> go_error + ActionRequest"
    \<comment> \<open>\<^verbatim>\<open>json.NewDecoder(r.Body).Decode(&req)\<close>\<close>
  marshal_params :: "jsonmap \<Rightarrow> go_error + string"
    \<comment> \<open>\<^verbatim>\<open>json.Marshal(req.Params)\<close>\<close>
  marshal_command :: "string \<Rightarrow> go_error + string"
    \<comment> \<open>\<^verbatim>\<open>json.Marshal(map[string]string{"command": payload})\<close>\<close>
  marshal_gemini_request :: "string \<Rightarrow> go_error + string"
    \<comment> \<open>\<^verbatim>\<open>json.Marshal(geminiReq)\<close>, a function of the prompt text\<close>
  marshal_gemini_response :: "GeminiResponse \<Rightarrow> go_error + string"
    \<comment> \<open>\<^verbatim>\<open>json.Marshal(geminiResp)\<close>\<close>
  json_unmarshal :: "string \<Rightarrow> jsonmap \<Rightarrow> go_error option \<times> jsonmap"
    \<comment> \<open>\<^verbatim>\<open>json.Unmarshal(b, &m)\<close> for \<^verbatim>\<open>m map[string]interface{}\<close>: from the bytes and the
        contents of \<^verbatim>\<open>m\<close> before the call, the error returned and the contents of \<^verbatim>\<open>m\<close>
        after it\<close>
  unmarshal_gemini :: "string \<Rightarrow> go_error + GeminiResponse"
    \<comment> \<open>\<^verbatim>\<open>json.Unmarshal(body, &geminiResp)\<close>\<close>
  run_cmd :: "string \<Rightarrow> string list \<Rightarrow> string \<times> go_error option"
    \<comment> \<open>\<^verbatim>\<open>exec.Command(name, args...).CombinedOutput()\<close>\<close>
  http_post :: "string \<Rightarrow> string \<Rightarrow> go_error + (go_error + string)"
    \<comment> \<open>\<^verbatim>\<open>http.Post(url, "application/json", body)\<close>, then \<^verbatim>\<open>ioutil.ReadAll\<close> of the body\<close>
  temp_file :: "string \<Rightarrow> go_error + string"
    \<comment> \<open>\<^verbatim>\<open>ioutil.TempFile("", pattern)\<close>: the name of the new file\<close>
  file_write :: "string \<Rightarrow> string \<Rightarrow> go_error option"
    \<comment> \<open>\<^verbatim>\<open>tmpFile.Write([]byte(code))\<close>\<close>
  read_file :: "string \<Rightarrow> go_error + string"
    \<comment> \<open>\<^verbatim>\<open>ioutil.ReadFile(name)\<close>\<close>
  db_exec :: "string \<Rightarrow> ActionRequest \<Rightarrow> jsonmap \<Rightarrow> go_error option"
    \<comment> \<open>\<^verbatim>\<open>dbConn.Exec("INSERT INTO logs ...", time.Now(), action, reqJSON, respJSON)\<close>\<close>

datatype event =
    Exec string "string list"
  | Log string
  | HttpPost string string
  | BodyClose
  | TempFile string
  | FileWrite string string
  | FileClose string
  | Remove string
  | ReadFile string
  | DbInsert string ActionRequest jsonmap
  | WriteHeader nat
  | JsonResponse jsonmap
  | Fatal string

text \<open>How a call of the handler ends: it returns, it panics, or \<^verbatim>\<open>log.Fatalf\<close> exits the process.\<close>

datatype outcome = Returned | Panicked | Exited

text \<open>
  \<^verbatim>\<open>json.Unmarshal\<close> decodes into the map it is given: it adds to a map that is not nil, and
  what it has stored before it meets an error stays in the map. Where the code declares a
  map, decodes into it once and, on an error, assigns the variable anew or returns without
  it, only the decoding into a nil map and its error are seen: that is \<open>unmarshal_map\<close>.
  \<^verbatim>\<open>extractValidJSON\<close> passes one variable to several calls; there the map is threaded through.
\<close>

definition unmarshal_map :: "env \<Rightarrow> string \<Rightarrow> go_error + jsonmap" where
  "unmarshal_map env b =
     (case json_unmarshal env b [] of
        (None, m) \<Rightarrow> Inr m
      | (Some err, m) \<Rightarrow> Inl err)"

subsection \<open>Library functions on strings\<close>

text \<open>\<^verbatim>\<open>strings.Contains(s, sub)\<close>.\<close>

fun Contains :: "string \<Rightarrow> string \<Rightarrow> bool" where
  "Contains [] sub = (sub = [])"
| "Contains (c # s) sub = (take (length sub) (c # s) = sub \<or> Contains s sub)"

text \<open>\<^verbatim>\<open>strings.Split(s, "\n")\<close>: the pieces between line feeds; never the empty list.\<close>

fun Split :: "string \<Rightarrow> string list" where
  "Split [] = [[]]"
| "Split (c # s) =
     (if c = CHR 0x0A then [] # Split s
      else (case Split s of [] \<Rightarrow> [[c]] | l # ls \<Rightarrow> (c # l) # ls))"

text \<open>
  \<^verbatim>\<open>strings.TrimSpace\<close> removes leading and trailing white space as Unicode defines it: the
  six ASCII characters of \<^verbatim>\<open>asciiSpace\<close>, and the UTF-8 encodings of U+0085, U+00A0, U+1680,
  U+2000..U+200A, U+2028, U+2029, U+202F, U+205F and U+3000. \<open>space_width s\<close> is the number
  of bytes of the white space character \<open>s\<close> starts with, 0 when it starts with none.
\<close>

definition asciiSpace :: "char \<Rightarrow> bool" where
  "asciiSpace c =
     (c = CHR 0x09 \<or> c = CHR 0x0A \<or> c = CHR 0x0B \<or> c = CHR 0x0C \<or> c = CHR 0x0D \<or> c = CHR 0x20)"

definition space_runes :: "string list" where
  "space_runes =
     [[CHR 0xC2, CHR 0x85], [CHR 0xC2, CHR 0xA0], [CHR 0xE1, CHR 0x9A, CHR 0x80],
      [CHR 0xE2, CHR 0x80, CHR 0x80], [CHR 0xE2, CHR 0x80, CHR 0x81],
      [CHR 0xE2, CHR 0x80, CHR 0x82], [CHR 0xE2, CHR 0x80, CHR 0x83],
      [CHR 0xE2, CHR 0x80, CHR 0x84], [CHR 0xE2, CHR 0x80, CHR 0x85],
      [CHR 0xE2, CHR 0x80, CHR 0x86], [CHR 0xE2, CHR 0x80, CHR 0x87],
      [CHR 0xE2, CHR 0x80, CHR 0x88], [CHR 0xE2, CHR 0x80, CHR 0x89],
      [CHR 0xE2, CHR 0x80, CHR 0x8A], [CHR 0xE2, CHR 0x80, CHR 0xA8],
      [CHR 0xE2, CHR 0x80, CHR 0xA9], [CHR 0xE2, CHR 0x80, CHR 0xAF],
      [CHR 0xE2, CHR 0x81, CHR 0x9F], [CHR 0xE3, CHR 0x80, CHR 0x80]]"

definition space_width :: "string list \<Rightarrow> string \<Rightarrow> nat" where
  "space_width runes s =
     (case s of
        [] \<Rightarrow> 0
      | c # _ \<Rightarrow>
          if asciiSpace c then 1
          else (case List.find (\<lambda>r. take (length r) s = r) runes of
                  None \<Rightarrow> 0
                | Some r \<Rightarrow> length r))"

function strip_spaces :: "string list \<Rightarrow> string \<Rightarrow> string" where
  "strip_spaces runes s =
     (if space_width runes s = 0 then s
      else strip_spaces runes (drop (space_width runes s) s))"
  by pat_completeness auto
termination
  by (relation "measure (\<lambda>(runes, s). length s)")
     (auto simp: space_width_def split: list.splits)

declare strip_spaces.simps [simp del]

definition TrimSpace :: "string \<Rightarrow> string" where
  "TrimSpace s =
     rev (strip_spaces (map rev space_runes) (rev (strip_spaces space_runes s)))"

text \<open>The byte sequences that are one white space character.\<close>

definition space_tokens :: "string list \<Rightarrow> string list" where
  "space_tokens runes =
     map (\<lambda>c. [c]) [CHR 0x09, CHR 0x0A, CHR 0x0B, CHR 0x0C, CHR 0x0D, CHR 0x20] @ runes"

subsection \<open>\<^verbatim>\<open>parsePrefix\<close>\<close>

text \<open>
  \<^verbatim>\<open>len(input) >= 3 && input[2] == ' '\<close>: the index is read only when the length test has
  passed, so the slices \<^verbatim>\<open>input[:2]\<close> and \<^verbatim>\<open>input[3:]\<close> are in range.
\<close>

definition parsePrefix :: "string \<Rightarrow> string \<times> string" where
  "parsePrefix input =
     (if length input \<ge> 3 \<and> input ! 2 = CHR '' '' then
        (let prefix = take 2 input in
         if prefix = ''py'' \<or> prefix = ''sh'' then
           (prefix, TrimSpace (drop 3 input))
         else ('''', input))
      else ('''', input))"

subsection \<open>\<^verbatim>\<open>runPython\<close>\<close>

text \<open>
  The test that sends \<^verbatim>\<open>runPython\<close> to the next binary:
  \<^verbatim>\<open>err != nil && (errors.Is(err, exec.ErrNotFound) || strings.Contains(string(out), "Python was not found"))\<close>.
\<close>

definition not_found :: "string \<times> go_error option \<Rightarrow> bool" where
  "not_found r =
     (case r of
        (out, None) \<Rightarrow> False
      | (out, Some e) \<Rightarrow> is_ErrNotFound e \<or> Contains out ''Python was not found'')"

definition runPython :: "env \<Rightarrow> string list \<Rightarrow> event list \<times> string \<times> go_error option" where
  "runPython env args =
     (let r1 = run_cmd env ''python3'' args in
      if not_found r1 then
        (let r2 = run_cmd env ''python'' args in
         if not_found r2 then
           (let r3 = run_cmd env ''py'' args in
            ([Exec ''python3'' args, Log ''python3 not found, falling back to python'',
              Exec ''python'' args, Log ''python not found, falling back to py'',
              Exec ''py'' args], r3))
         else
           ([Exec ''python3'' args, Log ''python3 not found, falling back to python'',
             Exec ''python'' args], r2))
      else ([Exec ''python3'' args], r1))"

subsection \<open>\<^verbatim>\<open>extractValidJSON\<close>\<close>

text \<open>
  The loop \<^verbatim>\<open>for i := len(lines) - 1; i >= 0; i--\<close>; the argument \<open>n\<close> is \<open>i + 1\<close>.
  \<^verbatim>\<open>lines[i]\<close> panics out of range. Every call of \<^verbatim>\<open>json.Unmarshal\<close> gets the address of the
  one variable \<^verbatim>\<open>result\<close>, nil at first: an attempt decodes into what the attempts before
  it have left there. When the loop ends the function returns nil and the error.
\<close>

definition index :: "'a list \<Rightarrow> nat \<Rightarrow> 'a go" where
  "index xs i = (if i < length xs then Ret (xs ! i) else Panic)"

fun scan_lines :: "env \<Rightarrow> string list \<Rightarrow> nat \<Rightarrow> jsonmap \<Rightarrow> (go_error + jsonmap) go" where
  "scan_lines env lines 0 result = Ret (Inl (GoError False ''no valid JSON found in output''))"
| "scan_lines env lines (Suc i) result =
     (case index lines i of
        Panic \<Rightarrow> Panic
      | Ret l \<Rightarrow>
          (let line = TrimSpace l in
           if line = '''' then scan_lines env lines i result
           else (case json_unmarshal env line result of
                   (None, result') \<Rightarrow> Ret (Inr result')
                 | (Some err, result') \<Rightarrow> scan_lines env lines i result')))"

definition extractValidJSON :: "env \<Rightarrow> string \<Rightarrow> (go_error + jsonmap) go" where
  "extractValidJSON env output =
     (case json_unmarshal env output [] of
        (None, result) \<Rightarrow> Ret (Inr result)
      | (Some err, result) \<Rightarrow>
          (let lines = Split output in scan_lines env lines (length lines) result))"

subsection \<open>\<^verbatim>\<open>geminiRespToMap\<close>\<close>

definition geminiRespToMap :: "env \<Rightarrow> GeminiResponse \<Rightarrow> jsonmap" where
  "geminiRespToMap env geminiResp =
     (case marshal_gemini_response env geminiResp of
        Inl err \<Rightarrow> [(''error'', JString ''Error converting Gemini response'')]
      | Inr data \<Rightarrow>
          (case unmarshal_map env data of
             Inl err \<Rightarrow> [(''error'', JString ''Error converting Gemini response'')]
           | Inr result \<Rightarrow> result))"

subsection \<open>Generating and running code (\<^verbatim>\<open>handlePythonCommand\<close>, \<^verbatim>\<open>handleConversational\<close>)\<close>

text \<open>
  The test \<^verbatim>\<open>len(geminiResp.Candidates) == 0 || len(geminiResp.Candidates[0].Content.Parts) == 0\<close>
  with the short-circuit of \<^verbatim>\<open>||\<close>, and the read
  \<^verbatim>\<open>geminiResp.Candidates[0].Content.Parts[0].Text\<close>; each index can panic.
\<close>

definition no_content :: "GeminiResponse \<Rightarrow> bool go" where
  "no_content geminiResp =
     (if length (Candidates geminiResp) = 0 then Ret True
      else (case index (Candidates geminiResp) 0 of
              Panic \<Rightarrow> Panic
            | Ret c \<Rightarrow> Ret (length (Parts (Content c)) = 0)))"

definition generated_text :: "GeminiResponse \<Rightarrow> string go" where
  "generated_text geminiResp =
     (case index (Candidates geminiResp) 0 of
        Panic \<Rightarrow> Panic
      | Ret c \<Rightarrow>
          (case index (Parts (Content c)) 0 of
             Panic \<Rightarrow> Panic
           | Ret p \<Rightarrow> Ret (Text p)))"

text \<open>
  The two functions have the same body after the line that builds \<^verbatim>\<open>promptText\<close>; it is
  embedded once, in three pieces that follow the two \<^verbatim>\<open>defer\<close> statements: what runs after
  \<^verbatim>\<open>defer os.Remove(tmpFile.Name())\<close>, what runs after \<^verbatim>\<open>defer httpResp.Body.Close()\<close>, and the
  whole. Each piece returns its events and its result; the deferred call is appended by the
  piece around it.
\<close>

definition afterTempFile ::
    "env \<Rightarrow> GeminiResponse \<Rightarrow> string \<Rightarrow> string \<Rightarrow> event list \<times> jsonmap go" where
  "afterTempFile env geminiResp generatedCode name =
     (case file_write env name generatedCode of
        Some err \<Rightarrow>
          ([FileWrite name generatedCode, FileClose name,
            Log (''Error writing generated code to temporary file: '' @ err_text err)],
           Ret (geminiRespToMap env geminiResp))
      | None \<Rightarrow>
          (case runPython env [name] of
             (tr, pythonOutput, Some err) \<Rightarrow>
               ([FileWrite name generatedCode, FileClose name] @ tr @
                [Log (''Python execution output: '' @ pythonOutput),
                 Log (''Error executing generated code: '' @ err_text err)],
                Ret (geminiRespToMap env geminiResp))
           | (tr, pythonOutput, None) \<Rightarrow>
               (case unmarshal_map env pythonOutput of
                  Inr parsedResp \<Rightarrow>
                    ([FileWrite name generatedCode, FileClose name] @ tr @
                     [Log (''Python execution output: '' @ pythonOutput)],
                     Ret parsedResp)
                | Inl err \<Rightarrow>
                    (case extractValidJSON env pythonOutput of
                       Panic \<Rightarrow>
                         ([FileWrite name generatedCode, FileClose name] @ tr @
                          [Log (''Python execution output: '' @ pythonOutput),
                           Log (''Error parsing output from generated code: '' @ err_text err)],
                          Panic)
                     | Ret (Inl err2) \<Rightarrow>
                         ([FileWrite name generatedCode, FileClose name] @ tr @
                          [Log (''Python execution output: '' @ pythonOutput),
                           Log (''Error parsing output from generated code: '' @ err_text err),
                           Log (''Error extracting valid JSON: '' @ err_text err2)],
                          Ret (geminiRespToMap env geminiResp))
                     | Ret (Inr parsedResp) \<Rightarrow>
                         ([FileWrite name generatedCode, FileClose name] @ tr @
                          [Log (''Python execution output: '' @ pythonOutput),
                           Log (''Error parsing output from generated code: '' @ err_text err)],
                          Ret parsedResp)))))"

definition afterPost :: "env \<Rightarrow> go_error + string \<Rightarrow> event list \<times> jsonmap go" where
  "afterPost env rd =
     (case rd of
        Inl err \<Rightarrow> ([], Ret [(''error'', JString ''Error reading Gemini response'')])
      | Inr body \<Rightarrow>
          (case unmarshal_gemini env body of
             Inl err \<Rightarrow>
               ([Log (''Gemini raw response: '' @ body)],
                Ret [(''error'', JString ''Error parsing Gemini response''),
                     (''raw_response'', JString body)])
           | Inr geminiResp \<Rightarrow>
               (case no_content geminiResp of
                  Panic \<Rightarrow> ([Log (''Gemini raw response: '' @ body)], Panic)
                | Ret True \<Rightarrow>
                    ([Log (''Gemini raw response: '' @ body)],
                     Ret [(''error'', JString ''No content generated by Gemini''),
                          (''raw_response'', JString body)])
                | Ret False \<Rightarrow>
                    (case generated_text geminiResp of
                       Panic \<Rightarrow> ([Log (''Gemini raw response: '' @ body)], Panic)
                     | Ret generatedCode \<Rightarrow>
                         (case temp_file env ''hartley_generated_*.py'' of
                            Inl err \<Rightarrow>
                              ([Log (''Gemini raw response: '' @ body),
                                Log (''Generated Python code: '' @ generatedCode),
                                TempFile ''hartley_generated_*.py'',
                                Log (''Error creating temporary file for generated code: ''
                                     @ err_text err)],
                               Ret (geminiRespToMap env geminiResp))
                          | Inr name \<Rightarrow>
                              (case afterTempFile env geminiResp generatedCode name of
                                 (tr, r) \<Rightarrow>
                                   ([Log (''Gemini raw response: '' @ body),
                                     Log (''Generated Python code: '' @ generatedCode),
                                     TempFile ''hartley_generated_*.py''] @ tr @ [Remove name],
                                    r)))))))"

definition generateAndRun :: "env \<Rightarrow> Config \<Rightarrow> string \<Rightarrow> event list \<times> jsonmap go" where
  "generateAndRun env config promptText =
     (case marshal_gemini_request env promptText of
        Inl err \<Rightarrow> ([], Ret [(''error'', JString ''Error marshalling Gemini request'')])
      | Inr reqBody \<Rightarrow>
          (let url = GeminiEndpoint config @ ''?key='' @ GeminiAPIKey config in
           case http_post env url reqBody of
             Inl err \<Rightarrow>
               ([HttpPost url reqBody], Ret [(''error'', JString ''Error calling Gemini API'')])
           | Inr rd \<Rightarrow>
               (case afterPost env rd of
                  (tr, r) \<Rightarrow> ([HttpPost url reqBody] @ tr @ [BodyClose], r))))"

definition python_prompt :: string where
  "python_prompt =
     ''You are a Python code generation assistant. Generate a valid Python script that, when executed, prints a JSON object with a single key ''
     @ [CHR 0x22] @ ''result'' @ [CHR 0x22]
     @ '' containing the answer to the following query: ''"

definition conversational_prompt :: string where
  "conversational_prompt =
     ''You are a helpful AI assistant. Pretend you are an AI named 'Hartley'. 'Hartley' was developed by Micah Crandell. 'Hartley' is running on his device. Hartley is solely a Python code generator/assistant. Hartley's working environment is in Micah's python terminal. Hartley has complete access to Micah's device through the python environment. Your task is to generate valid Python code that, when executed, prints a valid JSON string to standard output. The JSON must be an object with a single key ''
     @ [CHR 0x22] @ ''result'' @ [CHR 0x22]
     @ '' whose value is the answer to the user's query. The generated code must include all necessary import statements so that it runs correctly. You must provide the complete python script. Your output must consist solely of plain Python code without any markdown formatting, triple backticks, or code fences. The code must start with a print() statement, and nothing else should be included. Now, process the following query by writing python code: ''"

definition handlePythonCommand :: "env \<Rightarrow> Config \<Rightarrow> string \<Rightarrow> event list \<times> jsonmap go" where
  "handlePythonCommand env config payload = generateAndRun env config (python_prompt @ payload)"

definition handleConversational :: "env \<Rightarrow> Config \<Rightarrow> string \<Rightarrow> event list \<times> jsonmap go" where
  "handleConversational env config query =
     generateAndRun env config (conversational_prompt @ query)"

subsection \<open>\<^verbatim>\<open>handleShellCommand\<close>\<close>

definition handleShellCommand :: "env \<Rightarrow> string \<Rightarrow> event list \<times> jsonmap go" where
  "handleShellCommand env payload =
     (case marshal_command env payload of
        Inl err \<Rightarrow>
          ([], Ret [(''error'', JString ''Error marshalling shell command parameters'')])
      | Inr paramsJSON \<Rightarrow>
          (case runPython env [''python/action_runner.py'', ''run_terminal_command'', paramsJSON] of
             (tr, output, Some err) \<Rightarrow>
               (tr, Ret [(''error'', JString (''Error executing shell command: '' @ err_text err)),
                         (''output'', JString output)])
           | (tr, output, None) \<Rightarrow>
               (case unmarshal_map env output of
                  Inr resp \<Rightarrow> (tr, Ret resp)
                | Inl err \<Rightarrow>
                    (case extractValidJSON env output of
                       Panic \<Rightarrow> (tr, Panic)
                     | Ret (Inl err2) \<Rightarrow>
                         (tr, Ret [(''error'', JString ''Error parsing shell command output''),
                                   (''raw_output'', JString output)])
                     | Ret (Inr resp) \<Rightarrow> (tr, Ret resp)))))"

subsection \<open>The registered actions\<close>

text \<open>
  The body of \<^verbatim>\<open>for _, act := range actions\<close> once \<^verbatim>\<open>act.Name == req.Action\<close> holds (it ends
  in \<^verbatim>\<open>break\<close> on every path), and the loop. The loop returns \<open>None\<close> when it ends with
  \<^verbatim>\<open>actionFound\<close> still false.
\<close>

definition run_action :: "env \<Rightarrow> Action \<Rightarrow> ActionRequest \<Rightarrow> event list \<times> jsonmap" where
  "run_action env act req =
     (case marshal_params env (Params req) of
        Inl err \<Rightarrow> ([], [(''error'', JString ''Error marshalling parameters'')])
      | Inr paramsJSON \<Rightarrow>
          (case runPython env [Script act, Function act, paramsJSON] of
             (tr, output, Some err) \<Rightarrow>
               (tr, [(''error'', JString (''Error executing action: '' @ err_text err)),
                     (''output'', JString output)])
           | (tr, output, None) \<Rightarrow>
               (case unmarshal_map env output of
                  Inl err \<Rightarrow>
                    (tr, [(''error'', JString ''Error parsing action output''),
                          (''raw_output'', JString output)])
                | Inr resp \<Rightarrow> (tr, resp))))"

fun range_actions :: "env \<Rightarrow> Action list \<Rightarrow> ActionRequest \<Rightarrow> (event list \<times> jsonmap) option" where
  "range_actions env [] req = None"
| "range_actions env (act # acts) req =
     (if Name act = Action req then Some (run_action env act req)
      else range_actions env acts req)"

subsection \<open>\<^verbatim>\<open>logToDB\<close>, \<^verbatim>\<open>jsonResponse\<close> and the request\<close>

definition logToDB :: "env \<Rightarrow> string \<Rightarrow> ActionRequest \<Rightarrow> jsonmap \<Rightarrow> event list" where
  "logToDB env action request response =
     DbInsert action request response #
     (case db_exec env action request response of
        None \<Rightarrow> []
      | Some err \<Rightarrow> [Log (''Error logging to database: '' @ err_text err)])"

record http_request =
  Method :: string
  Body :: string

subsection \<open>\<^verbatim>\<open>actionHandler\<close> of the prefix-dispatching server\<close>

definition dispatch ::
    "env \<Rightarrow> Config \<Rightarrow> Action list \<Rightarrow> ActionRequest \<Rightarrow> event list \<times> jsonmap go" where
  "dispatch env config actions req =
     (case parsePrefix (Action req) of
        (prefix, payload) \<Rightarrow>
          if prefix = ''py'' then handlePythonCommand env config payload
          else if prefix = ''sh'' then handleShellCommand env payload
          else (case range_actions env actions req of
                  Some (tr, resp) \<Rightarrow> (tr, Ret resp)
                | None \<Rightarrow> handleConversational env config (Action req)))"

definition actionHandler ::
    "env \<Rightarrow> Config \<Rightarrow> Action list \<Rightarrow> http_request \<Rightarrow> event list \<times> outcome" where
  "actionHandler env config actions r =
     (if Method r \<noteq> ''POST'' then
        ([WriteHeader 405, JsonResponse [(''error'', JString ''Method not allowed'')]], Returned)
      else
        (case decode_request env (Body r) of
           Inl err \<Rightarrow>
             ([WriteHeader 400, JsonResponse [(''error'', JString ''Invalid JSON'')]], Returned)
         | Inr req \<Rightarrow>
             (case dispatch env config actions req of
                (tr, Panic) \<Rightarrow> (tr, Panicked)
              | (tr, Ret resp) \<Rightarrow>
                  (tr @ logToDB env (Action req) req resp @ [JsonResponse resp], Returned))))"

subsection \<open>\<^verbatim>\<open>actionHandler\<close> of \<^verbatim>\<open>hartley-main.go\<close>\<close>

text \<open>
  The generation branch, written inline in the handler. Its two \<^verbatim>\<open>defer\<close> statements belong to
  the handler, so the deferred calls are returned as a third component and run when the
  handler returns, last registered first. Output that does not decode in whole is not
  searched for a JSON line here.
\<close>

definition runGenerated_main ::
    "env \<Rightarrow> GeminiResponse \<Rightarrow> string \<Rightarrow> string \<Rightarrow> event list \<times> jsonmap go" where
  "runGenerated_main env geminiResp generatedCode name =
     (case file_write env name generatedCode of
        Some err \<Rightarrow>
          ([FileWrite name generatedCode, FileClose name,
            Log (''Error writing generated code to temporary file: '' @ err_text err)],
           Ret (geminiRespToMap env geminiResp))
      | None \<Rightarrow>
          (case runPython env [name] of
             (tr, pythonOutput, Some err) \<Rightarrow>
               ([FileWrite name generatedCode, FileClose name] @ tr @
                [Log (''Python execution output: '' @ pythonOutput),
                 Log (''Error executing generated code: '' @ err_text err)],
                Ret (geminiRespToMap env geminiResp))
           | (tr, pythonOutput, None) \<Rightarrow>
               (case unmarshal_map env pythonOutput of
                  Inl err \<Rightarrow>
                    ([FileWrite name generatedCode, FileClose name] @ tr @
                     [Log (''Python execution output: '' @ pythonOutput),
                      Log (''Error parsing output from generated code: '' @ err_text err)],
                     Ret (geminiRespToMap env geminiResp))
                | Inr parsedResp \<Rightarrow>
                    ([FileWrite name generatedCode, FileClose name] @ tr @
                     [Log (''Python execution output: '' @ pythonOutput)],
                     Ret parsedResp))))"

definition useBody_main ::
    "env \<Rightarrow> go_error + string \<Rightarrow> event list \<times> jsonmap go \<times> event list" where
  "useBody_main env rd =
     (case rd of
        Inl err \<Rightarrow> ([], Ret [(''error'', JString ''Error reading Gemini response'')], [])
      | Inr body \<Rightarrow>
          (case unmarshal_gemini env body of
             Inl err \<Rightarrow>
               ([Log (''Gemini raw response: '' @ body)],
                Ret [(''error'', JString ''Error parsing Gemini response''),
                     (''raw_response'', JString body)], [])
           | Inr geminiResp \<Rightarrow>
               (case no_content geminiResp of
                  Panic \<Rightarrow> ([Log (''Gemini raw response: '' @ body)], Panic, [])
                | Ret True \<Rightarrow>
                    ([Log (''Gemini raw response: '' @ body)],
                     Ret [(''error'', JString ''No content generated by Gemini''),
                          (''raw_response'', JString body)], [])
                | Ret False \<Rightarrow>
                    (case generated_text geminiResp of
                       Panic \<Rightarrow> ([Log (''Gemini raw response: '' @ body)], Panic, [])
                     | Ret generatedCode \<Rightarrow>
                         (case temp_file env ''hartley_generated_*.py'' of
                            Inl err \<Rightarrow>
                              ([Log (''Gemini raw response: '' @ body),
                                Log (''Generated Python code: '' @ generatedCode),
                                TempFile ''hartley_generated_*.py'',
                                Log (''Error creating temporary file for generated code: ''
                                     @ err_text err)],
                               Ret (geminiRespToMap env geminiResp), [])
                          | Inr name \<Rightarrow>
                              (case runGenerated_main env geminiResp generatedCode name of
                                 (tr, r) \<Rightarrow>
                                   ([Log (''Gemini raw response: '' @ body),
                                     Log (''Generated Python code: '' @ generatedCode),
                                     TempFile ''hartley_generated_*.py''] @ tr,
                                    r, [Remove name])))))))"

definition freeform_main ::
    "env \<Rightarrow> Config \<Rightarrow> string \<Rightarrow> string \<Rightarrow> event list \<times> jsonmap go \<times> event list" where
  "freeform_main env config systemPrompt userQuery =
     (let promptText = systemPrompt @ userQuery in
      case marshal_gemini_request env promptText of
        Inl err \<Rightarrow> ([], Ret [(''error'', JString ''Error marshalling Gemini request'')], [])
      | Inr reqBody \<Rightarrow>
          (let url = GeminiEndpoint config @ ''?key='' @ GeminiAPIKey config in
           case http_post env url reqBody of
             Inl err \<Rightarrow>
               ([HttpPost url reqBody],
                Ret [(''error'', JString ''Error calling Gemini API'')], [])
           | Inr rd \<Rightarrow>
               (case useBody_main env rd of
                  (tr, r, deferred) \<Rightarrow>
                    ([HttpPost url reqBody] @ tr, r, deferred @ [BodyClose]))))"

text \<open>
  The handler: the loop over the registered actions, then the read of
  \<^verbatim>\<open>systemPrompt.txt\<close> with \<^verbatim>\<open>log.Fatalf\<close> on failure (whether or not an action was found), then
  the generation branch when no action was found. \<^verbatim>\<open>resp\<close> is nil, the empty map, until a
  branch assigns it.
\<close>

definition actionHandler_main ::
    "env \<Rightarrow> Config \<Rightarrow> Action list \<Rightarrow> http_request \<Rightarrow> event list \<times> outcome" where
  "actionHandler_main env config actions r =
     (if Method r \<noteq> ''POST'' then
        ([WriteHeader 405, JsonResponse [(''error'', JString ''Method not allowed'')]], Returned)
      else
        (case decode_request env (Body r) of
           Inl err \<Rightarrow>
             ([WriteHeader 400, JsonResponse [(''error'', JString ''Invalid JSON'')]], Returned)
         | Inr req \<Rightarrow>
             (let found = range_actions env actions req;
                  tr1 = (case found of None \<Rightarrow> [] | Some (tr, resp) \<Rightarrow> tr) in
              case read_file env ''systemPrompt.txt'' of
                Inl err \<Rightarrow>
                  (tr1 @ [ReadFile ''systemPrompt.txt'',
                          Fatal (''Error reading systemPrompt.txt: '' @ err_text err)],
                   Exited)
              | Inr systemPrompt \<Rightarrow>
                  (case found of
                     Some (tr, resp) \<Rightarrow>
                       (tr1 @ [ReadFile ''systemPrompt.txt''] @
                        logToDB env (Action req) req resp @ [JsonResponse resp],
                        Returned)
                   | None \<Rightarrow>
                       (case freeform_main env config systemPrompt (Action req) of
                          (tr2, Panic, deferred) \<Rightarrow>
                            (tr1 @ [ReadFile ''systemPrompt.txt''] @ tr2 @ deferred, Panicked)
                        | (tr2, Ret resp, deferred) \<Rightarrow>
                            (tr1 @ [ReadFile ''systemPrompt.txt''] @ tr2 @
                             logToDB env (Action req) req resp @ [JsonResponse resp] @ deferred,
                             Returned))))))"

subsection \<open>Reading a trace\<close>

fun is_JsonResponse :: "event \<Rightarrow> bool" where
  "is_JsonResponse (JsonResponse m) = True"
| "is_JsonResponse e = False"

fun is_DbInsert :: "event \<Rightarrow> bool" where
  "is_DbInsert (DbInsert a rq rs) = True"
| "is_DbInsert e = False"

fun is_HttpPost :: "event \<Rightarrow> bool" where
  "is_HttpPost (HttpPost u b) = True"
| "is_HttpPost e = False"

fun is_Exec :: "event \<Rightarrow> bool" where
  "is_Exec (Exec n a) = True"
| "is_Exec e = False"

definition responses :: "event list \<Rightarrow> event list" where
  "responses tr = filter is_JsonResponse tr"

definition audit_attempts :: "event list \<Rightarrow> event list" where
  "audit_attempts tr = filter is_DbInsert tr"

definition remote_calls :: "event list \<Rightarrow> event list" where
  "remote_calls tr = filter is_HttpPost tr"

definition executions :: "event list \<Rightarrow> event list" where
  "executions tr = filter is_Exec tr"

definition has_key :: "string \<Rightarrow> jsonmap \<Rightarrow> bool" where
  "has_key k m = (map_of m k \<noteq> None)"

text \<open>Events that a stage of the pipeline may write: everything but the HTTP response, the
  audit insert and the process exit, which only the handler writes.\<close>

fun internal :: "event \<Rightarrow> bool" where
  "internal (JsonResponse m) = False"
| "internal (DbInsert a rq rs) = False"
| "internal (WriteHeader n) = False"
| "internal (Fatal m) = False"
| "internal e = True"

subsection \<open>The specification's words\<close>

text \<open>
  The interpreter runner of the specification: try each candidate in order; a candidate
  that is not found sends the runner to the next one; the last candidate's result is
  returned whatever it is. The first component lists the candidates tried.
\<close>

fun try_candidates ::
    "env \<Rightarrow> string list \<Rightarrow> string list \<Rightarrow> string list \<times> string \<times> go_error option" where
  "try_candidates env [] args = ([], '''', None)"
| "try_candidates env [c] args = ([c], run_cmd env c args)"
| "try_candidates env (c # c' # cs) args =
     (if not_found (run_cmd env c args) then
        (case try_candidates env (c' # cs) args of (tried, r) \<Rightarrow> (c # tried, r))
      else ([c], run_cmd env c args))"

text \<open>
  The action classifier of the specification: a directive when the string has at least 3
  characters, the 3rd is a space and the first 2 are a directive code; else the first
  registered action of that name; else free-form text.
\<close>

datatype Route = Directive string string | Registered Action | Freeform string

definition classify :: "Action list \<Rightarrow> string \<Rightarrow> Route" where
  "classify actions action =
     (if 3 \<le> length action \<and> action ! 2 = CHR '' ''
         \<and> (take 2 action = ''py'' \<or> take 2 action = ''sh'')
      then Directive (take 2 action) (TrimSpace (drop 3 action))
      else (case List.find (\<lambda>act. Name act = action) actions of
              Some act \<Rightarrow> Registered act
            | None \<Rightarrow> Freeform action))"

text \<open>
  White space around a payload: a string made of white space characters only, a string
  that starts with a white space character, and one that ends with one. The white space
  characters are those of \<open>space_tokens space_runes\<close>, in UTF-8.
\<close>

definition white :: "string \<Rightarrow> bool" where
  "white s = (\<exists>ts. set ts \<subseteq> set (space_tokens space_runes) \<and> s = concat ts)"

definition starts_with_space :: "string \<Rightarrow> bool" where
  "starts_with_space s = (\<exists>t \<in> set (space_tokens space_runes). take (length t) s = t)"

definition ends_with_space :: "string \<Rightarrow> bool" where
  "ends_with_space s =
     (\<exists>t \<in> set (space_tokens space_runes).
        length t \<le> length s \<and> drop (length s - length t) s = t)"

text \<open>
  The second policy of the output extractor: of the lines of the output, trimmed, the last
  one that is not blank and decodes, that is, for which \<^verbatim>\<open>json.Unmarshal\<close> into a nil map
  returns no error.
\<close>

definition decodes :: "env \<Rightarrow> string \<Rightarrow> bool" where
  "decodes env s = (case unmarshal_map env s of Inl err \<Rightarrow> False | Inr m \<Rightarrow> True)"

definition last_json_line :: "env \<Rightarrow> string \<Rightarrow> string option" where
  "last_json_line env output =
     List.find (\<lambda>l. l \<noteq> '''' \<and> decodes env l) (rev (map TrimSpace (Split output)))"

text \<open>
  The remote service answered the prompt with \<open>body\<close>: the request was marshalled, posted to
  the configured URL, and the response body was read.
\<close>

definition remote_returns :: "env \<Rightarrow> Config \<Rightarrow> string \<Rightarrow> string \<Rightarrow> bool" where
  "remote_returns env config promptText body =
     (case marshal_gemini_request env promptText of
        Inl err \<Rightarrow> False
      | Inr reqBody \<Rightarrow>
          http_post env (GeminiEndpoint config @ ''?key='' @ GeminiAPIKey config) reqBody
            = Inr (Inr body))"

text \<open>
  A stage after the envelope fails: the scratch file cannot be created, or cannot be
  written, or the interpreter run returns an error, or nothing can be extracted from its
  output. In \<^verbatim>\<open>hartley-main.go\<close> the last stage is the decoding of the whole output.
\<close>

definition extraction_fails :: "env \<Rightarrow> string \<Rightarrow> bool" where
  "extraction_fails env pythonOutput =
     (case unmarshal_map env pythonOutput of
        Inr m \<Rightarrow> False
      | Inl err \<Rightarrow>
          (case extractValidJSON env pythonOutput of Ret (Inl err2) \<Rightarrow> True | _ \<Rightarrow> False))"

definition later_stage_fails :: "env \<Rightarrow> string \<Rightarrow> bool" where
  "later_stage_fails env generatedCode =
     (case temp_file env ''hartley_generated_*.py'' of
        Inl err \<Rightarrow> True
      | Inr name \<Rightarrow>
          (case file_write env name generatedCode of
             Some err \<Rightarrow> True
           | None \<Rightarrow>
               (case runPython env [name] of
                  (tr, pythonOutput, Some err) \<Rightarrow> True
                | (tr, pythonOutput, None) \<Rightarrow> extraction_fails env pythonOutput)))"

definition later_stage_fails_main :: "env \<Rightarrow> string \<Rightarrow> bool" where
  "later_stage_fails_main env generatedCode =
     (case temp_file env ''hartley_generated_*.py'' of
        Inl err \<Rightarrow> True
      | Inr name \<Rightarrow>
          (case file_write env name generatedCode of
             Some err \<Rightarrow> True
           | None \<Rightarrow>
               (case runPython env [name] of
                  (tr, pythonOutput, Some err) \<Rightarrow> True
                | (tr, pythonOutput, None) \<Rightarrow> \<not> decodes env pythonOutput)))"

subsection \<open>A concrete host\<close>

text \<open>
  A host on which the definitions can be run: \<^verbatim>\<open>python3\<close> and \<^verbatim>\<open>py\<close> are not installed,
  \<^verbatim>\<open>python\<close> is; the remote service answers every prompt with one candidate whose code is
  \<^verbatim>\<open>print(1/0)\<close>; running that code fails with exit status 1; every other script prints a
  progress line and then \<^verbatim>\<open>{"result": 42}\<close>.
\<close>

definition dq :: string where
  "dq = [CHR 0x22]"

definition lf :: string where
  "lf = [CHR 0x0A]"

definition demo_line :: string where
  "demo_line = ''{'' @ dq @ ''result'' @ dq @ '': 42}''"

definition demo_output :: string where
  "demo_output = ''progress line'' @ lf @ demo_line @ lf"

definition demo_result :: jsonmap where
  "demo_result = [(''result'', JNumber 42)]"

definition demo_envelope :: GeminiResponse where
  "demo_envelope =
     \<lparr>Candidates =
        [\<lparr>Content = \<lparr>Parts = [\<lparr>Text = ''print(1/0)''\<rparr>], Role = ''model''\<rparr>,
          FinishReason = ''STOP''\<rparr>]\<rparr>"

definition demo_body :: string where
  "demo_body =
     ''{'' @ dq @ ''candidates'' @ dq @ '':[{'' @ dq @ ''content'' @ dq @ '':{'' @ dq @ ''parts''
     @ dq @ '':[{'' @ dq @ ''text'' @ dq @ '':'' @ dq @ ''print(1/0)'' @ dq @ ''}],'' @ dq
     @ ''role'' @ dq @ '':'' @ dq @ ''model'' @ dq @ ''},'' @ dq @ ''finishReason'' @ dq @ '':''
     @ dq @ ''STOP'' @ dq @ ''}]}''"

definition demo_envelope_map :: jsonmap where
  "demo_envelope_map =
     [(''candidates'',
       JArray [JObject [(''content'',
                         JObject [(''parts'', JArray [JObject [(''text'', JString ''print(1/0)'')]]),
                                  (''role'', JString ''model'')]),
                        (''finishReason'', JString ''STOP'')]])]"

definition empty_body :: string where
  "empty_body = ''{'' @ dq @ ''candidates'' @ dq @ '':[]}''"

definition demo_tmp :: string where
  "demo_tmp = ''/tmp/hartley_generated_123.py''"

definition demo_params_json :: "jsonmap \<Rightarrow> string" where
  "demo_params_json p = (if p = [] then ''{}'' else ''{'' @ dq @ ''n'' @ dq @ '':1}'')"

definition demo_request_body :: "ActionRequest \<Rightarrow> string" where
  "demo_request_body rq =
     ''{'' @ dq @ ''action'' @ dq @ '':'' @ dq @ Action rq @ dq @ '','' @ dq @ ''params'' @ dq
     @ '':'' @ demo_params_json (Params rq) @ ''}''"

definition demo_requests :: "ActionRequest list" where
  "demo_requests =
     [\<lparr>Action = ''get_time'', Params = []\<rparr>,
      \<lparr>Action = ''py 1/0'', Params = []\<rparr>,
      \<lparr>Action = ''sh echo hi'', Params = []\<rparr>,
      \<lparr>Action = ''What is 1/0?'', Params = []\<rparr>,
      \<lparr>Action = ''What is 1/0?'', Params = [(''n'', JNumber 1)]\<rparr>]"

text \<open>
  The decoder of the host does what \<^verbatim>\<open>encoding/json\<close> documents for a target of type
  \<^verbatim>\<open>map[string]interface{}\<close>, given how the bytes parse:
  \<^item> bytes that are not one JSON value, or whose value is not an object or \<^verbatim>\<open>null\<close>, give an
    error and leave the map as it was;
  \<^item> \<^verbatim>\<open>null\<close> sets the map to nil and gives no error;
  \<^item> an object has its members stored one after the other into the map, which keeps its
    other entries; a number outside the range of \<^verbatim>\<open>float64\<close> is stored as nil, the decoding
    goes on, and the error \<^verbatim>\<open>cannot unmarshal number ... into Go value of type float64\<close> is
    returned at the end.
  \<open>parsed\<close> says which of the three the bytes are; \<open>Members kvs err\<close> carries the members
  as they are stored and the error, if any.
\<close>

datatype parsed =
    Invalid go_error
  | Null
  | Members "(string \<times> json) list" "go_error option"

fun put :: "string \<Rightarrow> json \<Rightarrow> jsonmap \<Rightarrow> jsonmap" where
  "put k v [] = [(k, v)]"
| "put k v ((k', v') # m) = (if k' = k then (k, v) # m else (k', v') # put k v m)"

definition store_members :: "(string \<times> json) list \<Rightarrow> jsonmap \<Rightarrow> jsonmap" where
  "store_members kvs m = fold (\<lambda>(k, v). put k v) kvs m"

definition go_unmarshal ::
    "(string \<Rightarrow> parsed) \<Rightarrow> string \<Rightarrow> jsonmap \<Rightarrow> go_error option \<times> jsonmap" where
  "go_unmarshal parse b m =
     (case parse b of
        Invalid err \<Rightarrow> (Some err, m)
      | Null \<Rightarrow> (None, [])
      | Members kvs err \<Rightarrow> (err, store_members kvs m))"

text \<open>
  The bytes the host's decoder knows: \<^verbatim>\<open>{"result": 42}\<close>, the remote response,
  \<^verbatim>\<open>{"a": 1, "n": 2}\<close>, \<^verbatim>\<open>null\<close>, and two objects with a number that no \<^verbatim>\<open>float64\<close> holds,
  \<^verbatim>\<open>{"k": "v", "n": 1e999}\<close> and \<^verbatim>\<open>{"n": 1e999}\<close>. Every other byte sequence is taken as
  not JSON; of those that are decoded in the properties below, none is.
\<close>

definition object_line :: string where
  "object_line = ''{'' @ dq @ ''a'' @ dq @ '': 1, '' @ dq @ ''n'' @ dq @ '': 2}''"

definition overflow_line :: string where
  "overflow_line =
     ''{'' @ dq @ ''k'' @ dq @ '': '' @ dq @ ''v'' @ dq @ '', '' @ dq @ ''n'' @ dq @ '': 1e999}''"

definition overflow_object :: string where
  "overflow_object = ''{'' @ dq @ ''n'' @ dq @ '': 1e999}''"

definition overflow_error :: go_error where
  "overflow_error =
     GoError False ''json: cannot unmarshal number 1e999 into Go value of type float64''"

definition demo_parse :: "string \<Rightarrow> parsed" where
  "demo_parse b =
     (if b = demo_line then Members demo_result None
      else if b = demo_body then Members demo_envelope_map None
      else if b = object_line then Members [(''a'', JNumber 1), (''n'', JNumber 2)] None
      else if b = overflow_line then
        Members [(''k'', JString ''v''), (''n'', JNull)] (Some overflow_error)
      else if b = overflow_object then Members [(''n'', JNull)] (Some overflow_error)
      else if b = ''null'' then Null
      else Invalid (GoError False ''invalid character''))"

text \<open>Two outputs of a script: the object line above a line that fails, and above \<^verbatim>\<open>null\<close>.\<close>

definition merged_output :: string where
  "merged_output = object_line @ lf @ overflow_line @ lf"

definition null_output :: string where
  "null_output = object_line @ lf @ ''null'' @ lf"

text \<open>A directive with white space around its payload: a tab before it; a space, a
  no-break space and a line feed after it.\<close>

definition spaced_action :: string where
  "spaced_action = ''py '' @ [CHR 0x09] @ ''1/0 + 2 '' @ [CHR 0xC2, CHR 0xA0, CHR 0x0A]"

definition demo_not_found :: "string \<Rightarrow> go_error" where
  "demo_not_found name =
     GoError True (''exec: '' @ dq @ name @ dq @ '': executable file not found in $PATH'')"

definition demo_env :: env where
  "demo_env =
     \<lparr>decode_request =
        (\<lambda>b. case List.find (\<lambda>rq. demo_request_body rq = b) demo_requests of
               None \<Rightarrow> Inl (GoError False ''invalid character'')
             | Some rq \<Rightarrow> Inr rq),
      marshal_params =
        (\<lambda>p. if p = [] \<or> p = [(''n'', JNumber 1)] then Inr (demo_params_json p)
             else Inl (GoError False ''json: unsupported value'')),
      marshal_command =
        (\<lambda>payload. Inr (''{'' @ dq @ ''command'' @ dq @ '':'' @ dq @ payload @ dq @ ''}'')),
      marshal_gemini_request =
        (\<lambda>promptText.
           Inr (''{'' @ dq @ ''contents'' @ dq @ '':[{'' @ dq @ ''parts'' @ dq @ '':[{'' @ dq
                @ ''text'' @ dq @ '':'' @ dq
                @ concat (map (\<lambda>c. if c = CHR 0x22 then [CHR 0x5C, CHR 0x22] else [c]) promptText)
                @ dq @ ''}]}]}'')),
      marshal_gemini_response =
        (\<lambda>g. if g = demo_envelope then Inr demo_body
             else Inl (GoError False ''json: unsupported value'')),
      json_unmarshal = go_unmarshal demo_parse,
      unmarshal_gemini =
        (\<lambda>b. if b = demo_body then Inr demo_envelope
             else if b = empty_body then Inr \<lparr>Candidates = []\<rparr>
             else Inl (GoError False ''invalid character'')),
      run_cmd =
        (\<lambda>name args.
           if name = ''python'' then
             (if args = [demo_tmp] then
                (''ZeroDivisionError: division by zero'' @ lf, Some (GoError False ''exit status 1''))
              else (demo_output, None))
           else ('''', Some (demo_not_found name))),
      http_post = (\<lambda>url body. Inr (Inr demo_body)),
      temp_file = (\<lambda>pattern. Inr demo_tmp),
      file_write = (\<lambda>name code. None),
      read_file = (\<lambda>name. Inr ''Write python code for this query: ''),
      db_exec = (\<lambda>action request response. None)\<rparr>"

definition demo_empty_env :: env where
  "demo_empty_env = demo_env\<lparr>http_post := (\<lambda>url body. Inr (Inr empty_body))\<rparr>"

definition demo_db_down_env :: env where
  "demo_db_down_env =
     demo_env\<lparr>db_exec := (\<lambda>action request response. Some (GoError False ''database is locked''))\<rparr>"

text \<open>The same host, on which every script prints the object line and then the line that
  does not decode.\<close>

definition demo_merged_env :: env where
  "demo_merged_env =
     demo_env\<lparr>run_cmd :=
       (\<lambda>name args. if name = ''python'' then (merged_output, None)
                    else ('''', Some (demo_not_found name)))\<rparr>"


definition demo_config :: Config where
  "demo_config =
     \<lparr>ServerPort = 8080, GeminiAPIKey = ''KEY'',
      GeminiEndpoint = ''https://gemini.example/v1/generate''\<rparr>"

definition demo_actions :: "Action list" where
  "demo_actions =
     [\<lparr>Name = ''get_time'', Description = ''Current time'',
       Script = ''python/action_runner.py'', Function = ''get_time''\<rparr>]"

definition demo_post :: "ActionRequest \<Rightarrow> http_request" where
  "demo_post rq = \<lparr>Method = ''POST'', Body = demo_request_body rq\<rparr>"


section \<open>Properties\<close>

subsection \<open>Strings\<close>

lemma Contains_iff: "Contains s sub \<longleftrightarrow> (\<exists>p q. s = p @ sub @ q)"
proof (induction s)
  case Nil
  then show ?case by auto
next
  case (Cons c s)
  show ?case
  proof
    assume "Contains (c # s) sub"
    then consider "take (length sub) (c # s) = sub" | "Contains s sub" by auto
    then show "\<exists>p q. c # s = p @ sub @ q"
    proof cases
      case 1
      then have "c # s = [] @ sub @ drop (length sub) (c # s)"
        by (metis append_Nil append_take_drop_id)
      then show ?thesis by blast
    next
      case 2
      then obtain p q where "s = p @ sub @ q" using Cons.IH by blast
      then have "c # s = (c # p) @ sub @ q" by simp
      then show ?thesis by blast
    qed
  next
    assume "\<exists>p q. c # s = p @ sub @ q"
    then obtain p q where pq: "c # s = p @ sub @ q" by blast
    show "Contains (c # s) sub"
    proof (cases p)
      case Nil
      then have "take (length sub) (c # s) = sub" using pq by simp
      then show ?thesis by simp
    next
      case (Cons a p')
      then have "s = p' @ sub @ q" using pq by simp
      then have "Contains s sub" using Cons.IH by blast
      then show ?thesis by simp
    qed
  qed
qed

lemma TrimSpace_Nil: "TrimSpace '''' = ''''"
  by (simp add: TrimSpace_def strip_spaces.simps space_width_def)

lemma TrimSpace_demo_line: "TrimSpace demo_line = demo_line"
  unfolding demo_line_def dq_def by code_simp

lemma Split_demo_output: "Split demo_output = [''progress line'', demo_line, '''']"
  by (simp add: demo_output_def demo_line_def dq_def lf_def)

lemma demo_line_not_Nil: "demo_line \<noteq> ''''"
  by (simp add: demo_line_def)

lemma strip_spaces_Nil: "strip_spaces runes '''' = ''''"
  by (simp add: strip_spaces.simps space_width_def)

lemma space_width_token:
  "0 < space_width runes s \<Longrightarrow> take (space_width runes s) s \<in> set (space_tokens runes)"
proof (cases s)
  case Nil
  assume "0 < space_width runes s"
  then show ?thesis using Nil by (simp add: space_width_def)
next
  case (Cons c cs)
  assume pos: "0 < space_width runes s"
  show ?thesis
  proof (cases "asciiSpace c")
    case True
    then have "space_width runes s = 1" using Cons by (simp add: space_width_def)
    moreover have "[c] \<in> set (space_tokens runes)"
      using True by (auto simp: space_tokens_def asciiSpace_def)
    ultimately show ?thesis using Cons by simp
  next
    case False
    then obtain r where f: "List.find (\<lambda>r. take (length r) s = r) runes = Some r"
      and w: "space_width runes s = length r"
      using pos Cons by (auto simp: space_width_def split: option.splits)
    from f have "r \<in> set runes" and "take (length r) s = r"
      by (auto simp: find_Some_iff)
    then show ?thesis using w by (simp add: space_tokens_def)
  qed
qed

lemma strip_spaces_cut:
  "\<exists>ts. set ts \<subseteq> set (space_tokens runes) \<and> s = concat ts @ strip_spaces runes s"
proof (induction runes s rule: strip_spaces.induct)
  case (1 runes s)
  show ?case
  proof (cases "space_width runes s = 0")
    case True
    then have "strip_spaces runes s = s" by (simp add: strip_spaces.simps)
    then have "set [] \<subseteq> set (space_tokens runes) \<and> s = concat [] @ strip_spaces runes s"
      by simp
    then show ?thesis by blast
  next
    case False
    then obtain ts where ts: "set ts \<subseteq> set (space_tokens runes)"
      and eq: "drop (space_width runes s) s
                 = concat ts @ strip_spaces runes (drop (space_width runes s) s)"
      using "1.IH" by blast
    have st: "strip_spaces runes s = strip_spaces runes (drop (space_width runes s) s)"
      using False by (subst strip_spaces.simps) simp
    have tok: "take (space_width runes s) s \<in> set (space_tokens runes)"
      using False by (simp add: space_width_token)
    have "s = take (space_width runes s) s @ drop (space_width runes s) s" by simp
    then have "s = concat (take (space_width runes s) s # ts) @ strip_spaces runes s"
      using eq st by simp
    moreover have "set (take (space_width runes s) s # ts) \<subseteq> set (space_tokens runes)"
      using ts tok by simp
    ultimately show ?thesis by blast
  qed
qed

lemma strip_spaces_done: "space_width runes (strip_spaces runes s) = 0"
proof (induction runes s rule: strip_spaces.induct)
  case (1 runes s)
  show ?case
  proof (cases "space_width runes s = 0")
    case True
    then show ?thesis by (simp add: strip_spaces.simps)
  next
    case False
    then show ?thesis using "1.IH" by (subst strip_spaces.simps) simp
  qed
qed

lemma space_width_prefix:
  "[] \<notin> set runes \<Longrightarrow> space_width runes (t @ u) = 0 \<Longrightarrow> space_width runes t = 0"
proof (cases t)
  case Nil
  then show ?thesis by (simp add: space_width_def)
next
  case (Cons c cs)
  assume ne: "[] \<notin> set runes" and z: "space_width runes (t @ u) = 0"
  have na: "\<not> asciiSpace c" using z Cons by (auto simp: space_width_def)
  show ?thesis
  proof (cases "List.find (\<lambda>r. take (length r) t = r) runes")
    case None
    then show ?thesis using Cons na by (simp add: space_width_def)
  next
    case (Some r)
    then have r: "r \<in> set runes" and tk: "take (length r) t = r"
      by (auto simp: find_Some_iff)
    from tk have "length (take (length r) t) = length r" by simp
    then have "length r \<le> length t" by simp
    then have "take (length r) (t @ u) = r" using tk by simp
    then have "List.find (\<lambda>r. take (length r) (t @ u) = r) runes \<noteq> None"
      using r by (auto simp: find_None_iff)
    then obtain r' where
      f': "List.find (\<lambda>r. take (length r) (t @ u) = r) runes = Some r'" by blast
    then have "length r' = 0" using z Cons na by (simp add: space_width_def)
    moreover have "r' \<in> set runes" using f' by (metis find_Some_iff nth_mem)
    ultimately have False using ne by simp
    then show ?thesis ..
  qed
qed

lemma space_runes_nonempty: "[] \<notin> set space_runes" "[] \<notin> set (map rev space_runes)"
  by (simp_all add: space_runes_def)

lemma space_tokens_rev: "rev ` set (space_tokens (map rev runes)) = set (space_tokens runes)"
  by (auto simp: space_tokens_def image_Un image_image)

text \<open>
  \<open>TrimSpace s\<close> is \<open>s\<close> without a prefix and a suffix made of white space characters, and
  it neither starts nor ends with one.
\<close>

lemma TrimSpace_trims:
  "\<exists>ls rs. set ls \<subseteq> set (space_tokens space_runes) \<and> set rs \<subseteq> set (space_tokens space_runes)
     \<and> s = concat ls @ TrimSpace s @ concat rs
     \<and> space_width space_runes (TrimSpace s) = 0
     \<and> space_width (map rev space_runes) (rev (TrimSpace s)) = 0"
proof -
  define u where "u = strip_spaces space_runes s"
  define v where "v = strip_spaces (map rev space_runes) (rev u)"
  have t: "TrimSpace s = rev v" by (simp add: TrimSpace_def u_def v_def)
  obtain ls where ls: "set ls \<subseteq> set (space_tokens space_runes)" and s: "s = concat ls @ u"
    using strip_spaces_cut [of space_runes s] u_def by blast
  obtain ts where ts: "set ts \<subseteq> set (space_tokens (map rev space_runes))"
    and ru: "rev u = concat ts @ v"
    using strip_spaces_cut [of "map rev space_runes" "rev u"] v_def by blast
  define rs where "rs = map rev (rev ts)"
  have "rev ` set ts \<subseteq> set (space_tokens space_runes)"
    using ts space_tokens_rev [of space_runes] by blast
  then have rs: "set rs \<subseteq> set (space_tokens space_runes)" by (simp add: rs_def)
  have "u = rev (concat ts @ v)" using ru by (metis rev_rev_ident)
  then have u: "u = rev v @ concat rs" by (simp add: rs_def rev_concat)
  have "space_width space_runes u = 0" unfolding u_def by (rule strip_spaces_done)
  then have lead: "space_width space_runes (rev v) = 0"
    using u space_width_prefix [OF space_runes_nonempty(1)] by metis
  have trail: "space_width (map rev space_runes) v = 0"
    unfolding v_def by (rule strip_spaces_done)
  show ?thesis
    using ls rs s u lead trail t by (intro exI [of _ ls] exI [of _ rs]) simp
qed

text \<open>The same, in the words of the specification.\<close>

lemma space_tokens_nonempty: "[] \<notin> set runes \<Longrightarrow> [] \<notin> set (space_tokens runes)"
  by (auto simp: space_tokens_def)

lemma space_width_pos_iff:
  assumes ne: "[] \<notin> set runes"
  shows "0 < space_width runes s \<longleftrightarrow> (\<exists>t \<in> set (space_tokens runes). take (length t) s = t)"
proof
  assume pos: "0 < space_width runes s"
  define t where "t = take (space_width runes s) s"
  have "t \<in> set (space_tokens runes)" unfolding t_def using pos by (rule space_width_token)
  moreover have "take (length t) s = t" by (simp add: t_def min_def)
  ultimately show "\<exists>t \<in> set (space_tokens runes). take (length t) s = t" by blast
next
  assume "\<exists>t \<in> set (space_tokens runes). take (length t) s = t"
  then obtain t where t: "t \<in> set (space_tokens runes)" and tk: "take (length t) s = t"
    by blast
  have tne: "t \<noteq> []" using t space_tokens_nonempty [OF ne] by auto
  then obtain c cs where s: "s = c # cs" using tk by (cases s) auto
  show "0 < space_width runes s"
  proof (cases "asciiSpace c")
    case True
    then show ?thesis by (simp add: space_width_def s)
  next
    case False
    have "t \<in> set runes"
    proof (rule ccontr)
      assume "t \<notin> set runes"
      then obtain a where a: "t = [a]" "asciiSpace a"
        using t by (auto simp: space_tokens_def asciiSpace_def)
      then have "a = c" using tk s by simp
      then show False using a False by simp
    qed
    then have "List.find (\<lambda>r. take (length r) s = r) runes \<noteq> None"
      using tk by (auto simp: find_None_iff)
    then obtain r where f: "List.find (\<lambda>r. take (length r) s = r) runes = Some r" by blast
    then have "r \<in> set runes" by (metis find_Some_iff nth_mem)
    then have "r \<noteq> []" using ne by auto
    then show ?thesis using f False by (simp add: space_width_def s)
  qed
qed

lemma space_tokens_rev': "set (space_tokens (map rev runes)) = rev ` set (space_tokens runes)"
  by (auto simp: space_tokens_def image_Un image_image)

lemma starts_with_space_iff: "starts_with_space s \<longleftrightarrow> 0 < space_width space_runes s"
  by (simp add: starts_with_space_def space_width_pos_iff [OF space_runes_nonempty(1)])

lemma ends_with_space_iff:
  "ends_with_space s \<longleftrightarrow> 0 < space_width (map rev space_runes) (rev s)"
proof -
  have eq: "(length t \<le> length s \<and> drop (length s - length t) s = t)
              \<longleftrightarrow> take (length t) (rev s) = rev t" for t :: string
  proof
    assume a: "length t \<le> length s \<and> drop (length s - length t) s = t"
    then have "rev t = rev (drop (length s - length t) s)" by simp
    also have "\<dots> = take (length s - (length s - length t)) (rev s)" by (rule rev_drop)
    also have "length s - (length s - length t) = length t" using a by simp
    finally show "take (length t) (rev s) = rev t" by simp
  next
    assume tk: "take (length t) (rev s) = rev t"
    then have "length (take (length t) (rev s)) = length t" by simp
    then have le: "length t \<le> length s" by simp
    have "rev (take (length t) (rev s)) = t" using tk by simp
    then have "drop (length s - length t) s = t" by (simp add: rev_take)
    then show "length t \<le> length s \<and> drop (length s - length t) s = t" using le by simp
  qed
  have "ends_with_space s
          \<longleftrightarrow> (\<exists>t \<in> set (space_tokens space_runes). take (length (rev t)) (rev s) = rev t)"
    unfolding ends_with_space_def using eq by simp
  also have "\<dots> \<longleftrightarrow> (\<exists>u \<in> rev ` set (space_tokens space_runes). take (length u) (rev s) = u)"
    by blast
  also have "rev ` set (space_tokens space_runes) = set (space_tokens (map rev space_runes))"
    by (rule space_tokens_rev' [symmetric])
  finally show ?thesis
    using space_width_pos_iff [OF space_runes_nonempty(2), of "rev s"] by simp
qed

lemma TrimSpace_spec:
  "(\<exists>l r. white l \<and> white r \<and> s = l @ TrimSpace s @ r)
   \<and> \<not> starts_with_space (TrimSpace s) \<and> \<not> ends_with_space (TrimSpace s)"
proof -
  obtain ls rs where ls: "set ls \<subseteq> set (space_tokens space_runes)"
    and rs: "set rs \<subseteq> set (space_tokens space_runes)"
    and s: "s = concat ls @ TrimSpace s @ concat rs"
    and lead: "space_width space_runes (TrimSpace s) = 0"
    and trail: "space_width (map rev space_runes) (rev (TrimSpace s)) = 0"
    using TrimSpace_trims [of s] by blast
  have "white (concat ls)" unfolding white_def using ls by blast
  moreover have "white (concat rs)" unfolding white_def using rs by blast
  moreover have "\<not> starts_with_space (TrimSpace s)"
    using lead by (simp add: starts_with_space_iff)
  moreover have "\<not> ends_with_space (TrimSpace s)"
    using trail by (simp add: ends_with_space_iff)
  ultimately show ?thesis using s by blast
qed

lemma spaced_payload: "TrimSpace (drop 3 spaced_action) = ''1/0 + 2''"
  unfolding spaced_action_def by code_simp



subsection \<open>\<^verbatim>\<open>runPython\<close>\<close>

lemma not_found_iff:
  "not_found (out, err) \<longleftrightarrow>
     (\<exists>e. err = Some e \<and> (is_ErrNotFound e \<or> Contains out ''Python was not found''))"
  by (cases err) (simp_all add: not_found_def)

lemma runPython_cases:
  "runPython env args =
     (if \<not> not_found (run_cmd env ''python3'' args) then
        ([Exec ''python3'' args], run_cmd env ''python3'' args)
      else if \<not> not_found (run_cmd env ''python'' args) then
        ([Exec ''python3'' args, Log ''python3 not found, falling back to python'',
          Exec ''python'' args], run_cmd env ''python'' args)
      else
        ([Exec ''python3'' args, Log ''python3 not found, falling back to python'',
          Exec ''python'' args, Log ''python not found, falling back to py'',
          Exec ''py'' args], run_cmd env ''py'' args))"
  by (simp add: runPython_def Let_def)

lemma runPython_internal: "runPython env args = (tr, r) \<Longrightarrow> list_all internal tr"
  by (auto simp: runPython_cases split: if_splits)

lemma runPython_no_post: "runPython env args = (tr, r) \<Longrightarrow> remote_calls tr = []"
  by (auto simp: runPython_cases remote_calls_def split: if_splits)

text \<open>
  C4. \<^verbatim>\<open>runPython\<close> is the specification's runner on the candidates python3, python, py, in
  that order. It goes on to the next candidate exactly when the attempt returned an error
  and either that error is \<^verbatim>\<open>exec.ErrNotFound\<close> or the combined output contains
  \<^verbatim>\<open>Python was not found\<close>. An attempt that returned any other error (the interpreter ran, the
  script failed) ends the run: no further candidate is executed, and its output and error
  are returned. When all three candidates are missing, the output and error of the last
  attempt are returned.
\<close>

theorem runPython_fallback_chain:
  "executions (fst (runPython env args))
     = map (\<lambda>c. Exec c args) (fst (try_candidates env [''python3'', ''python'', ''py''] args))
   \<and> snd (runPython env args) = snd (try_candidates env [''python3'', ''python'', ''py''] args)
   \<and> executions (fst (runPython env args))
     = (if \<not> not_found (run_cmd env ''python3'' args) then [Exec ''python3'' args]
        else if \<not> not_found (run_cmd env ''python'' args) then
          [Exec ''python3'' args, Exec ''python'' args]
        else [Exec ''python3'' args, Exec ''python'' args, Exec ''py'' args])
   \<and> (not_found (out, err) \<longleftrightarrow>
        (\<exists>e. err = Some e \<and>
             (is_ErrNotFound e \<or> (\<exists>p q. out = p @ ''Python was not found'' @ q))))
   \<and> (run_cmd env ''python3'' args = (out, Some e) \<and> \<not> is_ErrNotFound e
        \<and> \<not> Contains out ''Python was not found''
      \<longrightarrow> runPython env args = ([Exec ''python3'' args], out, Some e))
   \<and> (not_found (run_cmd env ''python3'' args)
        \<and> run_cmd env ''python'' args = (out, Some e) \<and> \<not> is_ErrNotFound e
        \<and> \<not> Contains out ''Python was not found''
      \<longrightarrow> executions (fst (runPython env args)) = [Exec ''python3'' args, Exec ''python'' args]
          \<and> snd (runPython env args) = (out, Some e))
   \<and> (not_found (run_cmd env ''python3'' args) \<and> not_found (run_cmd env ''python'' args)
      \<longrightarrow> snd (runPython env args) = run_cmd env ''py'' args)"
  by (auto simp: runPython_cases executions_def not_found_iff Contains_iff)

lemma demo_python3: "not_found (run_cmd demo_env ''python3'' args)"
  by (simp add: demo_env_def not_found_def demo_not_found_def)

lemma demo_python_tmp:
  "run_cmd demo_env ''python'' [demo_tmp]
     = (''ZeroDivisionError: division by zero'' @ lf, Some (GoError False ''exit status 1''))"
  by (simp add: demo_env_def)

lemma demo_no_sentinel:
  "\<not> Contains (''ZeroDivisionError: division by zero'' @ lf) ''Python was not found''"
  by (simp add: lf_def)

theorem runPython_fallback_chain_witness:
  "not_found (run_cmd demo_env ''python3'' [demo_tmp])
   \<and> executions (fst (runPython demo_env [demo_tmp]))
       = [Exec ''python3'' [demo_tmp], Exec ''python'' [demo_tmp]]
   \<and> snd (runPython demo_env [demo_tmp])
       = (''ZeroDivisionError: division by zero'' @ lf, Some (GoError False ''exit status 1''))"
proof -
  have "not_found (run_cmd demo_env ''python3'' [demo_tmp])
          \<and> run_cmd demo_env ''python'' [demo_tmp]
              = (''ZeroDivisionError: division by zero'' @ lf, Some (GoError False ''exit status 1''))
          \<and> \<not> is_ErrNotFound (GoError False ''exit status 1'')
          \<and> \<not> Contains (''ZeroDivisionError: division by zero'' @ lf) ''Python was not found''
        \<longrightarrow> executions (fst (runPython demo_env [demo_tmp]))
              = [Exec ''python3'' [demo_tmp], Exec ''python'' [demo_tmp]]
            \<and> snd (runPython demo_env [demo_tmp])
              = (''ZeroDivisionError: division by zero'' @ lf, Some (GoError False ''exit status 1''))"
    using runPython_fallback_chain
            [of demo_env "[demo_tmp]" "''ZeroDivisionError: division by zero'' @ lf" None
                "GoError False ''exit status 1''"]
    by blast
  then show ?thesis
    using demo_python3 [of "[demo_tmp]"] demo_python_tmp demo_no_sentinel by simp
qed

subsection \<open>\<^verbatim>\<open>extractValidJSON\<close>\<close>

lemma index_in_range: "i < length xs \<Longrightarrow> index xs i = Ret (xs ! i)"
  by (simp add: index_def)

lemma scan_lines_no_panic:
  "n \<le> length lines \<Longrightarrow> scan_lines env lines n result \<noteq> Panic"
proof (induction n arbitrary: result)
  case 0
  show ?case by simp
next
  case (Suc n)
  then have n: "n < length lines" and le: "n \<le> length lines" by simp_all
  show ?case
    using Suc.IH [OF le]
    by (auto simp: index_in_range [OF n] Let_def split: prod.splits option.splits)
qed

lemma extractValidJSON_no_panic: "extractValidJSON env output \<noteq> Panic"
  by (auto simp: extractValidJSON_def Let_def scan_lines_no_panic
           split: prod.splits option.splits)

text \<open>
  On a host whose decoder stores nothing into a nil map before it fails, every attempt of
  the loop decodes into a nil map, and the loop is the search of the specification: the
  last line that, trimmed, is not blank and decodes without error.
\<close>

lemma scan_lines_find:
  assumes clean: "\<And>b err m. json_unmarshal env b [] = (Some err, m) \<Longrightarrow> m = []"
  shows "n \<le> length lines \<Longrightarrow>
   scan_lines env lines n [] =
     (case List.find (\<lambda>l. l \<noteq> '''' \<and> decodes env l) (rev (map TrimSpace (take n lines))) of
        None \<Rightarrow> Ret (Inl (GoError False ''no valid JSON found in output''))
      | Some l \<Rightarrow> Ret (unmarshal_map env l))"
proof (induction n)
  case 0
  then show ?case by simp
next
  case (Suc n)
  then have n: "n < length lines" and le: "n \<le> length lines" by simp_all
  have tk: "take (Suc n) lines = take n lines @ [lines ! n]"
    using n by (simp add: take_Suc_conv_app_nth)
  obtain e m where u: "json_unmarshal env (TrimSpace (lines ! n)) [] = (e, m)"
    by (cases "json_unmarshal env (TrimSpace (lines ! n)) []")
  show ?case
  proof (cases e)
    case None
    then show ?thesis
      using Suc.IH [OF le] u
      by (simp add: tk index_in_range [OF n] Let_def decodes_def unmarshal_map_def)
  next
    case (Some err)
    then have "m = []" using u clean by blast
    then show ?thesis
      using Suc.IH [OF le] u Some
      by (simp add: tk index_in_range [OF n] Let_def decodes_def unmarshal_map_def)
  qed
qed

lemma extractValidJSON_scan:
  assumes clean: "\<And>b err m. json_unmarshal env b [] = (Some err, m) \<Longrightarrow> m = []"
    and nd: "\<not> decodes env output"
  shows "extractValidJSON env output =
     (case last_json_line env output of
        None \<Rightarrow> Ret (Inl (GoError False ''no valid JSON found in output''))
      | Some l \<Rightarrow> Ret (unmarshal_map env l))"
proof -
  obtain err m where u: "json_unmarshal env output [] = (Some err, m)"
    using nd by (cases "json_unmarshal env output []")
                (auto simp: decodes_def unmarshal_map_def split: option.splits)
  then have "m = []" using clean by blast
  then show ?thesis
    using u scan_lines_find [OF clean, where n = "length (Split output)" and lines = "Split output"]
    by (simp add: extractValidJSON_def last_json_line_def Let_def)
qed

lemma last_json_line_decodes:
  "last_json_line env output = Some l \<Longrightarrow> l \<noteq> '''' \<and> (\<exists>m. unmarshal_map env l = Inr m)"
proof -
  assume "last_json_line env output = Some l"
  then have "l \<noteq> '''' \<and> decodes env l"
    unfolding last_json_line_def by (metis (mono_tags, lifting) find_Some_iff)
  then show ?thesis by (auto simp: decodes_def split: sum.splits)
qed

subsection \<open>The decoder of the concrete host\<close>

lemma put_fresh: "k \<notin> fst ` set m \<Longrightarrow> put k v m = m @ [(k, v)]"
  by (induction m) auto

lemma store_members_distinct:
  "distinct (map fst (m @ kvs)) \<Longrightarrow> store_members kvs m = m @ kvs"
proof (induction kvs arbitrary: m)
  case Nil
  then show ?case by (simp add: store_members_def)
next
  case (Cons kv kvs)
  obtain k v where kv: "kv = (k, v)" by (cases kv)
  have fresh: "k \<notin> fst ` set m" using Cons.prems kv by auto
  have "distinct (map fst ((m @ [(k, v)]) @ kvs))" using Cons.prems kv by simp
  then have "store_members kvs (m @ [(k, v)]) = (m @ [(k, v)]) @ kvs" by (rule Cons.IH)
  then show ?case by (simp add: store_members_def kv put_fresh [OF fresh])
qed

lemma demo_json_unmarshal: "json_unmarshal demo_env = go_unmarshal demo_parse"
  by (simp add: demo_env_def)

lemma demo_parse_known:
  "demo_parse demo_line = Members demo_result None"
  "demo_parse demo_body = Members demo_envelope_map None"
  "demo_parse object_line = Members [(''a'', JNumber 1), (''n'', JNumber 2)] None"
  "demo_parse overflow_line
     = Members [(''k'', JString ''v''), (''n'', JNull)] (Some overflow_error)"
  "demo_parse overflow_object = Members [(''n'', JNull)] (Some overflow_error)"
  "demo_parse ''null'' = Null"
  by (simp_all add: demo_parse_def demo_line_def demo_body_def object_line_def
                    overflow_line_def overflow_object_def dq_def)

lemma demo_parse_unknown:
  "demo_parse demo_output = Invalid (GoError False ''invalid character'')"
  "demo_parse merged_output = Invalid (GoError False ''invalid character'')"
  "demo_parse null_output = Invalid (GoError False ''invalid character'')"
  "demo_parse ''progress line'' = Invalid (GoError False ''invalid character'')"
  by (simp_all add: demo_parse_def demo_output_def merged_output_def null_output_def
                    demo_line_def demo_body_def object_line_def overflow_line_def
                    overflow_object_def dq_def lf_def)


lemma demo_line_decodes: "unmarshal_map demo_env demo_line = Inr demo_result"
  by (simp add: unmarshal_map_def demo_json_unmarshal go_unmarshal_def demo_parse_known
                store_members_def demo_result_def)

lemma demo_body_decodes: "unmarshal_map demo_env demo_body = Inr demo_envelope_map"
  by (simp add: unmarshal_map_def demo_json_unmarshal go_unmarshal_def demo_parse_known
                store_members_def demo_envelope_map_def)

lemma map_of_put: "map_of (put k v m) = (map_of m)(k \<mapsto> v)"
  by (induction m) auto

lemma store_members_map_of:
  "map_of (store_members kvs m) = map_of m ++ map_of (rev kvs)"
proof (induction kvs arbitrary: m)
  case Nil
  then show ?case by (simp add: store_members_def)
next
  case (Cons kv kvs)
  obtain k v where kv: "kv = (k, v)" by (cases kv)
  have "map_of (store_members kvs (put k v m)) = map_of (put k v m) ++ map_of (rev kvs)"
    by (rule Cons.IH)
  then show ?case by (simp add: store_members_def kv map_of_put)
qed

lemma Split_merged_output: "Split merged_output = [object_line, overflow_line, '''']"
  by (simp add: merged_output_def object_line_def overflow_line_def dq_def lf_def)

lemma Split_null_output: "Split null_output = [object_line, ''null'', '''']"
  by (simp add: null_output_def object_line_def dq_def lf_def)

lemma Split_overflow_object: "Split overflow_object = [overflow_object]"
  by (simp add: overflow_object_def dq_def)

lemma TrimSpace_lines:
  "TrimSpace object_line = object_line"
  "TrimSpace overflow_line = overflow_line"
  "TrimSpace overflow_object = overflow_object"
  "TrimSpace ''null'' = ''null''"
  unfolding object_line_def overflow_line_def overflow_object_def dq_def by code_simp+

lemma lines_not_blank:
  "object_line \<noteq> ''''" "overflow_line \<noteq> ''''" "overflow_object \<noteq> ''''"
  by (simp_all add: object_line_def overflow_line_def overflow_object_def)

text \<open>
  The example of the specification: for \<^verbatim>\<open>"progress line\n{\"result\": 42}\n"\<close> the whole
  output and the blank last line are passed over, and \<^verbatim>\<open>{"result": 42}\<close> is returned.
\<close>

lemma extractValidJSON_example:
  "extractValidJSON demo_env demo_output = Ret (Inr [(''result'', JNumber 42)])"
  by (simp add: extractValidJSON_def demo_json_unmarshal go_unmarshal_def demo_parse_unknown
                demo_parse_known Split_demo_output TrimSpace_demo_line TrimSpace_Nil
                demo_line_not_Nil index_def store_members_def eval_nat_numeral demo_result_def)

text \<open>
  C7 does not hold of the code. \<^verbatim>\<open>extractValidJSON\<close> hands the one map \<^verbatim>\<open>result\<close> to every
  attempt, and an attempt that fails after it has stored members leaves them in the map.
  For the output
  \<^verbatim>\<open>{"a": 1, "n": 2}\<close>, line feed, \<^verbatim>\<open>{"k": "v", "n": 1e999}\<close>, line feed,
  the whole output is not one JSON value; the last line that is not blank is an object, but
  its number fits no \<^verbatim>\<open>float64\<close>, so it does not decode, after \<^verbatim>\<open>k\<close> and \<^verbatim>\<open>n\<close> have been
  stored; the line above it is the last line that decodes, to the object with the members
  \<^verbatim>\<open>a\<close> and \<^verbatim>\<open>n\<close>. The function returns a map with the entries \<^verbatim>\<open>k\<close>, \<^verbatim>\<open>n\<close> and \<^verbatim>\<open>a\<close>: the
  member \<^verbatim>\<open>k\<close> of the line that failed is in the result.
  On a host whose action runner prints these two lines, that map is the result of the
  request \<^verbatim>\<open>sh echo hi\<close>.
  A line \<^verbatim>\<open>null\<close> is decoded without error as well: with \<^verbatim>\<open>null\<close> below the object line,
  the function returns the nil map, not the object.
\<close>

theorem extractValidJSON_keeps_failed_line:
  "Split merged_output = [object_line, overflow_line, '''']
   \<and> \<not> decodes demo_env merged_output
   \<and> \<not> decodes demo_env overflow_line
   \<and> last_json_line demo_env merged_output = Some object_line
   \<and> unmarshal_map demo_env object_line = Inr [(''a'', JNumber 1), (''n'', JNumber 2)]
   \<and> extractValidJSON demo_env merged_output
       = Ret (Inr [(''k'', JString ''v''), (''n'', JNumber 2), (''a'', JNumber 1)])
   \<and> has_key ''k'' [(''k'', JString ''v''), (''n'', JNumber 2), (''a'', JNumber 1)]
   \<and> \<not> has_key ''k'' [(''a'', JNumber 1), (''n'', JNumber 2)]
   \<and> snd (runPython demo_merged_env
             [''python/action_runner.py'', ''run_terminal_command'',
              ''{'' @ dq @ ''command'' @ dq @ '':'' @ dq @ ''echo hi'' @ dq @ ''}''])
       = (merged_output, None)
   \<and> snd (handleShellCommand demo_merged_env ''echo hi'')
       = Ret [(''k'', JString ''v''), (''n'', JNumber 2), (''a'', JNumber 1)]
   \<and> Split null_output = [object_line, ''null'', '''']
   \<and> demo_parse ''null'' = Null
   \<and> extractValidJSON demo_env null_output = Ret (Inr [])"
proof -
  have same: "json_unmarshal demo_merged_env = json_unmarshal demo_env"
    by (simp add: demo_merged_env_def)
  have run: "snd (runPython demo_merged_env
                    [''python/action_runner.py'', ''run_terminal_command'',
                     ''{'' @ dq @ ''command'' @ dq @ '':'' @ dq @ ''echo hi'' @ dq @ ''}''])
               = (merged_output, None)"
    by (simp add: runPython_cases demo_merged_env_def not_found_def demo_not_found_def)
  have mc: "marshal_command demo_merged_env ''echo hi''
              = Inr (''{'' @ dq @ ''command'' @ dq @ '':'' @ dq @ ''echo hi'' @ dq @ ''}'')"
    by (simp add: demo_merged_env_def demo_env_def)
  have "\<not> decodes demo_env merged_output" "\<not> decodes demo_env overflow_line"
    by (simp_all add: decodes_def unmarshal_map_def demo_json_unmarshal go_unmarshal_def
                      demo_parse_unknown demo_parse_known)
  moreover have "last_json_line demo_env merged_output = Some object_line"
    by (simp add: last_json_line_def Split_merged_output TrimSpace_lines TrimSpace_Nil
                  lines_not_blank decodes_def unmarshal_map_def demo_json_unmarshal
                  go_unmarshal_def demo_parse_known)
  moreover have "unmarshal_map demo_env object_line
                   = Inr [(''a'', JNumber 1), (''n'', JNumber 2)]"
    by (simp add: unmarshal_map_def demo_json_unmarshal go_unmarshal_def demo_parse_known
                  store_members_def)
  moreover have "extractValidJSON demo_env merged_output
                   = Ret (Inr [(''k'', JString ''v''), (''n'', JNumber 2), (''a'', JNumber 1)])"
    by (simp add: extractValidJSON_def demo_json_unmarshal go_unmarshal_def
                  demo_parse_unknown demo_parse_known Split_merged_output TrimSpace_lines
                  TrimSpace_Nil lines_not_blank index_def store_members_def eval_nat_numeral)
  moreover have "extractValidJSON demo_env null_output = Ret (Inr [])"
    by (simp add: extractValidJSON_def demo_json_unmarshal go_unmarshal_def
                  demo_parse_unknown demo_parse_known Split_null_output TrimSpace_lines
                  TrimSpace_Nil lines_not_blank index_def store_members_def eval_nat_numeral)
  moreover have "snd (handleShellCommand demo_merged_env ''echo hi'')
                   = Ret [(''k'', JString ''v''), (''n'', JNumber 2), (''a'', JNumber 1)]"
  proof -
    have u: "unmarshal_map demo_merged_env merged_output
               = Inl (GoError False ''invalid character'')"
      by (simp add: unmarshal_map_def same demo_json_unmarshal go_unmarshal_def
                    demo_parse_unknown)
    have e: "extractValidJSON demo_merged_env merged_output
               = Ret (Inr [(''k'', JString ''v''), (''n'', JNumber 2), (''a'', JNumber 1)])"
      by (simp add: extractValidJSON_def same demo_json_unmarshal go_unmarshal_def
                    demo_parse_unknown demo_parse_known Split_merged_output TrimSpace_lines
                    TrimSpace_Nil lines_not_blank index_def store_members_def
                    eval_nat_numeral)
    show ?thesis
      using run
      by (cases "runPython demo_merged_env
                   [''python/action_runner.py'', ''run_terminal_command'',
                    ''{'' @ dq @ ''command'' @ dq @ '':'' @ dq @ ''echo hi'' @ dq @ ''}'']")
         (simp add: handleShellCommand_def mc u e)
  qed
  ultimately show ?thesis
    using run
    by (simp add: Split_merged_output Split_null_output demo_parse_known has_key_def)
qed

text \<open>
  C8, as amended. When \<^verbatim>\<open>json.Unmarshal\<close> decodes the whole output into the nil map without
  error, \<^verbatim>\<open>extractValidJSON\<close> returns the map it decoded, and so it does on every host whose
  decoder does the same on the whole output, whatever it does on the lines: no line is
  looked at. On a host whose decoder
  does what \<^verbatim>\<open>encoding/json\<close> documents, an output that is a JSON object whose members all
  decode is returned as the map of its members: every key with its last value, and the
  list of the members itself when no key is repeated.
\<close>

theorem extractValidJSON_roundtrip:
  "(unmarshal_map env output = Inr obj \<longrightarrow> extractValidJSON env output = Ret (Inr obj))
   \<and> (unmarshal_map env output = Inr obj
        \<and> json_unmarshal env' output [] = json_unmarshal env output [] \<longrightarrow>
        extractValidJSON env' output = Ret (Inr obj))
   \<and> (json_unmarshal env = go_unmarshal parse \<and> parse output = Members kvs None \<longrightarrow>
        extractValidJSON env output = Ret (Inr (store_members kvs []))
        \<and> map_of (store_members kvs []) = map_of (rev kvs)
        \<and> (distinct (map fst kvs) \<longrightarrow> store_members kvs [] = kvs))"
proof (intro conjI impI)
  assume "unmarshal_map env output = Inr obj"
  then show "extractValidJSON env output = Ret (Inr obj)"
    by (auto simp: extractValidJSON_def unmarshal_map_def split: prod.splits option.splits)
next
  assume "unmarshal_map env output = Inr obj
          \<and> json_unmarshal env' output [] = json_unmarshal env output []"
  then show "extractValidJSON env' output = Ret (Inr obj)"
    by (auto simp: extractValidJSON_def unmarshal_map_def split: prod.splits option.splits)
next
  assume "json_unmarshal env = go_unmarshal parse \<and> parse output = Members kvs None"
  then show "extractValidJSON env output = Ret (Inr (store_members kvs []))"
    by (simp add: extractValidJSON_def go_unmarshal_def)
next
  show "map_of (store_members kvs []) = map_of (rev kvs)"
    by (simp add: store_members_map_of)
next
  assume "distinct (map fst kvs)"
  then show "store_members kvs [] = kvs"
    using store_members_distinct [of "[]" kvs] by simp
qed

theorem extractValidJSON_roundtrip_witness:
  "unmarshal_map demo_env demo_line = Inr [(''result'', JNumber 42)]
   \<and> json_unmarshal demo_env = go_unmarshal demo_parse
   \<and> demo_parse demo_line = Members [(''result'', JNumber 42)] None
   \<and> distinct (map fst [(''result'', JNumber 42)])
   \<and> store_members [(''result'', JNumber 42)] [] = [(''result'', JNumber 42)]
   \<and> extractValidJSON demo_env demo_line = Ret (Inr [(''result'', JNumber 42)])"
  using extractValidJSON_roundtrip
          [of demo_env demo_line "[(''result'', JNumber 42)]" demo_env demo_parse
              "[(''result'', JNumber 42)]"]
        demo_line_decodes demo_json_unmarshal demo_parse_known(1)
  by (simp add: demo_result_def)

text \<open>
  C8 as stated fails: \<^verbatim>\<open>{"n": 1e999}\<close> is a JSON object, but its number fits no \<^verbatim>\<open>float64\<close>;
  \<^verbatim>\<open>json.Unmarshal\<close> returns an error for it, as a whole and as a line, and the function
  reports that it found no JSON.
\<close>

theorem overflowing_object_not_returned:
  "demo_parse overflow_object = Members [(''n'', JNull)] (Some overflow_error)
   \<and> unmarshal_map demo_env overflow_object = Inl overflow_error
   \<and> extractValidJSON demo_env overflow_object
       = Ret (Inl (GoError False ''no valid JSON found in output''))"
  by (simp add: extractValidJSON_def unmarshal_map_def demo_json_unmarshal go_unmarshal_def
                demo_parse_known Split_overflow_object TrimSpace_lines lines_not_blank
                index_def store_members_def)


subsection \<open>No index leaves its range\<close>

lemma no_content_no_panic: "no_content g \<noteq> Panic"
  by (simp add: no_content_def index_def)

lemma generated_text_no_panic: "no_content g = Ret False \<Longrightarrow> generated_text g \<noteq> Panic"
  by (auto simp: no_content_def generated_text_def index_def split: if_splits)

lemma no_content_empty:
  "Candidates g = [] \<or> Parts (Content (hd (Candidates g))) = [] \<Longrightarrow> no_content g = Ret True"
  by (cases "Candidates g") (auto simp: no_content_def index_def)

lemma no_content_nonempty:
  "Candidates g = c # cs \<Longrightarrow> Parts (Content c) = p # ps \<Longrightarrow>
   no_content g = Ret False \<and> generated_text g = Ret (Text p)"
  by (simp add: no_content_def generated_text_def index_def)

lemma afterTempFile_no_panic: "afterTempFile env g code name \<noteq> (tr, Panic)"
  using extractValidJSON_no_panic
  by (auto simp: afterTempFile_def split: option.splits prod.splits sum.splits go.splits)

lemma afterPost_no_panic: "afterPost env rd \<noteq> (tr, Panic)"
proof (cases rd)
  case (Inl err)
  then show ?thesis by (simp add: afterPost_def)
next
  case (Inr body)
  show ?thesis
  proof (cases "unmarshal_gemini env body")
    case (Inl err)
    then show ?thesis using Inr by (simp add: afterPost_def)
  next
    case g: (Inr g)
    show ?thesis
    proof (cases "no_content g")
      case Panic
      then show ?thesis using no_content_no_panic by blast
    next
      case (Ret b)
      show ?thesis
      proof (cases b)
        case True
        then show ?thesis using Inr g Ret by (simp add: afterPost_def)
      next
        case False
        then obtain code where code: "generated_text g = Ret code"
          using Ret generated_text_no_panic [of g] by (cases "generated_text g") auto
        show ?thesis
          using Inr g Ret False code afterTempFile_no_panic [of env g code]
          by (auto simp: afterPost_def split: sum.splits prod.splits)
      qed
    qed
  qed
qed

lemma generateAndRun_no_panic: "generateAndRun env config promptText \<noteq> (tr, Panic)"
  using afterPost_no_panic
  by (auto simp: generateAndRun_def Let_def split: sum.splits prod.splits)

lemma handleShellCommand_no_panic: "handleShellCommand env payload \<noteq> (tr, Panic)"
  using extractValidJSON_no_panic
  by (auto simp: handleShellCommand_def split: option.splits prod.splits sum.splits go.splits)

lemma dispatch_no_panic: "dispatch env config actions req \<noteq> (tr, Panic)"
  using generateAndRun_no_panic handleShellCommand_no_panic
  by (auto simp: dispatch_def handlePythonCommand_def handleConversational_def
           split: prod.splits option.splits)

lemma runGenerated_main_no_panic: "runGenerated_main env g code name \<noteq> (tr, Panic)"
  by (auto simp: runGenerated_main_def split: option.splits prod.splits sum.splits)

lemma useBody_main_no_panic: "useBody_main env rd \<noteq> (tr, Panic, deferred)"
proof (cases rd)
  case (Inl err)
  then show ?thesis by (simp add: useBody_main_def)
next
  case (Inr body)
  show ?thesis
  proof (cases "unmarshal_gemini env body")
    case (Inl err)
    then show ?thesis using Inr by (simp add: useBody_main_def)
  next
    case g: (Inr g)
    show ?thesis
    proof (cases "no_content g")
      case Panic
      then show ?thesis using no_content_no_panic by blast
    next
      case (Ret b)
      show ?thesis
      proof (cases b)
        case True
        then show ?thesis using Inr g Ret by (simp add: useBody_main_def)
      next
        case False
        then obtain code where code: "generated_text g = Ret code"
          using Ret generated_text_no_panic [of g] by (cases "generated_text g") auto
        show ?thesis
          using Inr g Ret False code runGenerated_main_no_panic [of env g code]
          by (auto simp: useBody_main_def split: sum.splits prod.splits)
      qed
    qed
  qed
qed

lemma freeform_main_no_panic:
  "freeform_main env config systemPrompt userQuery \<noteq> (tr, Panic, deferred)"
  using useBody_main_no_panic
  by (auto simp: freeform_main_def Let_def split: sum.splits prod.splits)

subsection \<open>The envelope\<close>

lemma generateAndRun_body:
  "remote_returns env config promptText body \<Longrightarrow>
   snd (generateAndRun env config promptText) = snd (afterPost env (Inr body))"
  by (auto simp: remote_returns_def generateAndRun_def Let_def split: sum.splits prod.splits)

lemma freeform_main_body:
  "remote_returns env config (systemPrompt @ userQuery) body \<Longrightarrow>
   fst (snd (freeform_main env config systemPrompt userQuery))
     = fst (snd (useBody_main env (Inr body)))"
  by (auto simp: remote_returns_def freeform_main_def Let_def split: sum.splits prod.splits)

lemma afterPost_empty:
  "unmarshal_gemini env body = Inr g \<Longrightarrow>
   Candidates g = [] \<or> Parts (Content (hd (Candidates g))) = [] \<Longrightarrow>
   snd (afterPost env (Inr body))
     = Ret [(''error'', JString ''No content generated by Gemini''),
            (''raw_response'', JString body)]"
  by (simp add: afterPost_def no_content_empty)

lemma useBody_main_empty:
  "unmarshal_gemini env body = Inr g \<Longrightarrow>
   Candidates g = [] \<or> Parts (Content (hd (Candidates g))) = [] \<Longrightarrow>
   fst (snd (useBody_main env (Inr body)))
     = Ret [(''error'', JString ''No content generated by Gemini''),
            (''raw_response'', JString body)]"
  by (simp add: useBody_main_def no_content_empty)

lemma afterTempFile_fallback:
  "(case file_write env name code of
      Some err \<Rightarrow> True
    | None \<Rightarrow>
        (case runPython env [name] of
           (tr, pythonOutput, Some err) \<Rightarrow> True
         | (tr, pythonOutput, None) \<Rightarrow> extraction_fails env pythonOutput)) \<Longrightarrow>
   snd (afterTempFile env g code name) = Ret (geminiRespToMap env g)"
  by (auto simp: afterTempFile_def extraction_fails_def
           split: option.splits prod.splits sum.splits go.splits)

lemma afterPost_fallback:
  "unmarshal_gemini env body = Inr g \<Longrightarrow> Candidates g = c # cs \<Longrightarrow>
   Parts (Content c) = p # ps \<Longrightarrow> later_stage_fails env (Text p) \<Longrightarrow>
   snd (afterPost env (Inr body)) = Ret (geminiRespToMap env g)"
proof -
  assume g: "unmarshal_gemini env body = Inr g" and c: "Candidates g = c # cs"
    and p: "Parts (Content c) = p # ps" and f: "later_stage_fails env (Text p)"
  show ?thesis
  proof (cases "temp_file env ''hartley_generated_*.py''")
    case (Inl err)
    then show ?thesis using g by (simp add: afterPost_def no_content_nonempty [OF c p])
  next
    case (Inr name)
    have "snd (afterTempFile env g (Text p) name) = Ret (geminiRespToMap env g)"
      by (rule afterTempFile_fallback) (use f Inr in \<open>simp add: later_stage_fails_def\<close>)
    then show ?thesis
      using g Inr
      by (cases "afterTempFile env g (Text p) name")
         (simp add: afterPost_def no_content_nonempty [OF c p])
  qed
qed

lemma runGenerated_main_fallback:
  "(case file_write env name code of
      Some err \<Rightarrow> True
    | None \<Rightarrow>
        (case runPython env [name] of
           (tr, pythonOutput, Some err) \<Rightarrow> True
         | (tr, pythonOutput, None) \<Rightarrow> \<not> decodes env pythonOutput)) \<Longrightarrow>
   snd (runGenerated_main env g code name) = Ret (geminiRespToMap env g)"
  by (auto simp: runGenerated_main_def decodes_def
           split: option.splits prod.splits sum.splits)

lemma useBody_main_fallback:
  "unmarshal_gemini env body = Inr g \<Longrightarrow> Candidates g = c # cs \<Longrightarrow>
   Parts (Content c) = p # ps \<Longrightarrow> later_stage_fails_main env (Text p) \<Longrightarrow>
   fst (snd (useBody_main env (Inr body))) = Ret (geminiRespToMap env g)"
proof -
  assume g: "unmarshal_gemini env body = Inr g" and c: "Candidates g = c # cs"
    and p: "Parts (Content c) = p # ps" and f: "later_stage_fails_main env (Text p)"
  show ?thesis
  proof (cases "temp_file env ''hartley_generated_*.py''")
    case (Inl err)
    then show ?thesis using g by (simp add: useBody_main_def no_content_nonempty [OF c p])
  next
    case (Inr name)
    have "snd (runGenerated_main env g (Text p) name) = Ret (geminiRespToMap env g)"
      by (rule runGenerated_main_fallback)
         (use f Inr in \<open>simp add: later_stage_fails_main_def\<close>)
    then show ?thesis
      using g Inr
      by (cases "runGenerated_main env g (Text p) name")
         (simp add: useBody_main_def no_content_nonempty [OF c p])
  qed
qed


lemma geminiRespToMap_decoded:
  "marshal_gemini_response env g = Inr data \<Longrightarrow> unmarshal_map env data = Inr m \<Longrightarrow>
   geminiRespToMap env g = m"
  by (simp add: geminiRespToMap_def)

lemma demo_remote: "remote_returns demo_env demo_config promptText demo_body"
  by (simp add: remote_returns_def demo_env_def)

lemma demo_empty_remote: "remote_returns demo_empty_env demo_config promptText empty_body"
  by (simp add: remote_returns_def demo_empty_env_def demo_env_def)

lemma demo_bodies_differ: "demo_body \<noteq> demo_line" "empty_body \<noteq> demo_body"
  by (simp_all add: demo_body_def demo_line_def empty_body_def dq_def)

lemma demo_unmarshal_gemini: "unmarshal_gemini demo_env demo_body = Inr demo_envelope"
  by (simp add: demo_env_def)

lemma demo_unmarshal_empty:
  "unmarshal_gemini demo_empty_env empty_body = Inr \<lparr>Candidates = []\<rparr>"
  by (simp add: demo_empty_env_def demo_env_def demo_bodies_differ)

lemma demo_runPython_tmp:
  "snd (runPython demo_env [demo_tmp])
     = (''ZeroDivisionError: division by zero'' @ lf, Some (GoError False ''exit status 1''))"
  using demo_python3 [of "[demo_tmp]"] demo_python_tmp demo_no_sentinel
  by (simp add: runPython_cases not_found_def)

lemma demo_later_stage_fails: "later_stage_fails demo_env ''print(1/0)''"
proof -
  have t: "temp_file demo_env ''hartley_generated_*.py'' = Inr demo_tmp"
    and w: "file_write demo_env demo_tmp ''print(1/0)'' = None"
    by (simp_all add: demo_env_def)
  show ?thesis
    using demo_runPython_tmp
    by (cases "runPython demo_env [demo_tmp]") (simp add: later_stage_fails_def t w)
qed

lemma demo_later_stage_fails_main: "later_stage_fails_main demo_env ''print(1/0)''"
proof -
  have t: "temp_file demo_env ''hartley_generated_*.py'' = Inr demo_tmp"
    and w: "file_write demo_env demo_tmp ''print(1/0)'' = None"
    by (simp_all add: demo_env_def)
  show ?thesis
    using demo_runPython_tmp
    by (cases "runPython demo_env [demo_tmp]") (simp add: later_stage_fails_main_def t w)
qed

lemma demo_geminiRespToMap: "geminiRespToMap demo_env demo_envelope = demo_envelope_map"
proof -
  have "marshal_gemini_response demo_env demo_envelope = Inr demo_body"
    by (simp add: demo_env_def)
  then show ?thesis using demo_body_decodes by (rule geminiRespToMap_decoded)
qed

text \<open>
  C9. No call of the generation code panics, so no index is read out of range. When the
  remote response decodes to an envelope with no candidate, or whose first candidate has no
  part (in the statement \<open>hd\<close> is read only when the first disjunct fails, that is on a list
  that is not empty), \<^verbatim>\<open>handlePythonCommand\<close>, \<^verbatim>\<open>handleConversational\<close> and the generation branch of
  \<^verbatim>\<open>hartley-main.go\<close> return the map with \<^verbatim>\<open>error\<close> = \<^verbatim>\<open>No content generated by Gemini\<close> and
  \<^verbatim>\<open>raw_response\<close> = the response body.
\<close>

theorem empty_envelope_no_content:
  "snd (handlePythonCommand env config payload) \<noteq> Panic
   \<and> snd (handleConversational env config query) \<noteq> Panic
   \<and> fst (snd (freeform_main env config systemPrompt userQuery)) \<noteq> Panic
   \<and> (unmarshal_gemini env body = Inr g
        \<and> (Candidates g = [] \<or> Parts (Content (hd (Candidates g))) = [])
      \<longrightarrow> no_content g = Ret True
          \<and> (remote_returns env config (python_prompt @ payload) body
              \<longrightarrow> snd (handlePythonCommand env config payload)
                    = Ret [(''error'', JString ''No content generated by Gemini''),
                           (''raw_response'', JString body)])
          \<and> (remote_returns env config (conversational_prompt @ query) body
              \<longrightarrow> snd (handleConversational env config query)
                    = Ret [(''error'', JString ''No content generated by Gemini''),
                           (''raw_response'', JString body)])
          \<and> (remote_returns env config (systemPrompt @ userQuery) body
              \<longrightarrow> fst (snd (freeform_main env config systemPrompt userQuery))
                    = Ret [(''error'', JString ''No content generated by Gemini''),
                           (''raw_response'', JString body)]))"
proof (intro conjI impI)
  show "snd (handlePythonCommand env config payload) \<noteq> Panic"
    using generateAndRun_no_panic [of env config "python_prompt @ payload"]
    by (cases "generateAndRun env config (python_prompt @ payload)")
       (auto simp: handlePythonCommand_def)
  show "snd (handleConversational env config query) \<noteq> Panic"
    using generateAndRun_no_panic [of env config "conversational_prompt @ query"]
    by (cases "generateAndRun env config (conversational_prompt @ query)")
       (auto simp: handleConversational_def)
  show "fst (snd (freeform_main env config systemPrompt userQuery)) \<noteq> Panic"
    using freeform_main_no_panic [of env config systemPrompt userQuery]
    by (cases "freeform_main env config systemPrompt userQuery") auto
next
  assume e: "unmarshal_gemini env body = Inr g
               \<and> (Candidates g = [] \<or> Parts (Content (hd (Candidates g))) = [])"
  then show "no_content g = Ret True" by (simp add: no_content_empty)
  {
    assume "remote_returns env config (python_prompt @ payload) body"
    then show "snd (handlePythonCommand env config payload)
                 = Ret [(''error'', JString ''No content generated by Gemini''),
                        (''raw_response'', JString body)]"
      using e by (simp add: handlePythonCommand_def generateAndRun_body afterPost_empty)
  }
  {
    assume "remote_returns env config (conversational_prompt @ query) body"
    then show "snd (handleConversational env config query)
                 = Ret [(''error'', JString ''No content generated by Gemini''),
                        (''raw_response'', JString body)]"
      using e by (simp add: handleConversational_def generateAndRun_body afterPost_empty)
  }
  {
    assume "remote_returns env config (systemPrompt @ userQuery) body"
    then show "fst (snd (freeform_main env config systemPrompt userQuery))
                 = Ret [(''error'', JString ''No content generated by Gemini''),
                        (''raw_response'', JString body)]"
      using e by (simp add: freeform_main_body useBody_main_empty)
  }
qed

theorem empty_envelope_no_content_witness:
  "unmarshal_gemini demo_empty_env empty_body = Inr \<lparr>Candidates = []\<rparr>
   \<and> remote_returns demo_empty_env demo_config (python_prompt @ ''1/0'') empty_body
   \<and> snd (handlePythonCommand demo_empty_env demo_config ''1/0'')
       = Ret [(''error'', JString ''No content generated by Gemini''),
              (''raw_response'', JString empty_body)]"
  using empty_envelope_no_content
          [of demo_empty_env demo_config "''1/0''" "''''" "''''" "''''" empty_body
              "\<lparr>Candidates = []\<rparr>"]
        demo_unmarshal_empty demo_empty_remote [of "python_prompt @ ''1/0''"]
  by simp

text \<open>
  C3. On the generation paths, when the remote response decoded to an envelope with a first
  candidate that has a first part, and a later stage fails (the scratch file cannot be
  created or written, the interpreter run returns an error, or nothing can be extracted
  from its output), the result is \<^verbatim>\<open>geminiRespToMap\<close> of the envelope: the map that
  \<^verbatim>\<open>json.Unmarshal\<close> decodes from \<^verbatim>\<open>json.Marshal\<close> of the envelope.
\<close>

theorem fallback_is_envelope:
  "unmarshal_gemini env body = Inr g \<Longrightarrow> Candidates g = c # cs \<Longrightarrow>
   Parts (Content c) = p # ps \<Longrightarrow>
     (remote_returns env config (python_prompt @ payload) body
        \<and> later_stage_fails env (Text p)
      \<longrightarrow> snd (handlePythonCommand env config payload) = Ret (geminiRespToMap env g))
   \<and> (remote_returns env config (conversational_prompt @ query) body
        \<and> later_stage_fails env (Text p)
      \<longrightarrow> snd (handleConversational env config query) = Ret (geminiRespToMap env g))
   \<and> (remote_returns env config (systemPrompt @ userQuery) body
        \<and> later_stage_fails_main env (Text p)
      \<longrightarrow> fst (snd (freeform_main env config systemPrompt userQuery))
            = Ret (geminiRespToMap env g))
   \<and> (marshal_gemini_response env g = Inr data \<and> unmarshal_map env data = Inr m
      \<longrightarrow> geminiRespToMap env g = m)"
proof -
  assume g: "unmarshal_gemini env body = Inr g" and c: "Candidates g = c # cs"
    and p: "Parts (Content c) = p # ps"
  have gen: "snd (generateAndRun env config promptText) = Ret (geminiRespToMap env g)"
    if "remote_returns env config promptText body" and "later_stage_fails env (Text p)"
    for promptText
    using that generateAndRun_body [of env config promptText body]
          afterPost_fallback [OF g c p]
    by simp
  have main: "fst (snd (freeform_main env config systemPrompt userQuery))
                = Ret (geminiRespToMap env g)"
    if "remote_returns env config (systemPrompt @ userQuery) body"
      and "later_stage_fails_main env (Text p)"
    using that freeform_main_body [of env config systemPrompt userQuery body]
          useBody_main_fallback [OF g c p]
    by simp
  show ?thesis
    using gen [of "python_prompt @ payload"] gen [of "conversational_prompt @ query"] main
    by (simp add: handlePythonCommand_def handleConversational_def geminiRespToMap_decoded)
qed

theorem fallback_is_envelope_witness:
  "unmarshal_gemini demo_env demo_body = Inr demo_envelope
   \<and> remote_returns demo_env demo_config (python_prompt @ ''1/0'') demo_body
   \<and> later_stage_fails demo_env ''print(1/0)''
   \<and> snd (handlePythonCommand demo_env demo_config ''1/0'') = Ret demo_envelope_map
   \<and> snd (handleConversational demo_env demo_config ''What is 1/0?'') = Ret demo_envelope_map
   \<and> fst (snd (freeform_main demo_env demo_config ''Write code: '' ''What is 1/0?''))
       = Ret demo_envelope_map"
  using fallback_is_envelope
          [of demo_env demo_body demo_envelope
              "\<lparr>Content = \<lparr>Parts = [\<lparr>Text = ''print(1/0)''\<rparr>], Role = ''model''\<rparr>,
                FinishReason = ''STOP''\<rparr>" "[]" "\<lparr>Text = ''print(1/0)''\<rparr>" "[]"
              demo_config "''1/0''" "''What is 1/0?''" "''Write code: ''" "''What is 1/0?''"]
        demo_unmarshal_gemini demo_remote demo_later_stage_fails demo_later_stage_fails_main
        demo_geminiRespToMap
  by (simp add: demo_envelope_def)

subsection \<open>Routing\<close>

lemma range_actions_find:
  "range_actions env actions req =
     (case List.find (\<lambda>act. Name act = Action req) actions of
        None \<Rightarrow> None
      | Some act \<Rightarrow> Some (run_action env act req))"
  by (induction actions) simp_all

lemma range_actions_unregistered:
  "\<forall>act \<in> set actions. Name act \<noteq> Action req \<Longrightarrow> range_actions env actions req = None"
  by (induction actions) simp_all

lemma dispatch_classify:
  "dispatch env config actions req =
     (case classify actions (Action req) of
        Directive code payload \<Rightarrow>
          if code = ''py'' then handlePythonCommand env config payload
          else handleShellCommand env payload
      | Registered act \<Rightarrow> (case run_action env act req of (tr, resp) \<Rightarrow> (tr, Ret resp))
      | Freeform action \<Rightarrow> handleConversational env config action)"
  by (auto simp: dispatch_def classify_def parsePrefix_def Let_def range_actions_find
           split: option.splits prod.splits)

lemma dispatch_unregistered:
  "\<forall>act \<in> set actions. Name act \<noteq> Action req \<Longrightarrow>
   dispatch env config actions req =
     (case parsePrefix (Action req) of
        (prefix, payload) \<Rightarrow>
          if prefix = ''py'' then handlePythonCommand env config payload
          else if prefix = ''sh'' then handleShellCommand env payload
          else handleConversational env config (Action req))"
  by (simp add: dispatch_def range_actions_unregistered split: prod.splits)

lemma runPython_try_candidates:
  "executions (fst (runPython env args))
     = map (\<lambda>c. Exec c args) (fst (try_candidates env [''python3'', ''python'', ''py''] args))"
  "snd (runPython env args) = snd (try_candidates env [''python3'', ''python'', ''py''] args)"
  by (simp_all add: runPython_cases executions_def)

lemma runPython_first: "\<exists>rest. executions (fst (runPython env args)) = Exec ''python3'' args # rest"
  by (simp add: runPython_cases executions_def)

subsection \<open>\<^verbatim>\<open>parsePrefix\<close> and the order of the checks\<close>


text \<open>
  C6. \<^verbatim>\<open>parsePrefix\<close> returns a prefix exactly when the string has at least 3 bytes, byte 2
  is a space, and bytes 0 and 1 are \<^verbatim>\<open>py\<close> or \<^verbatim>\<open>sh\<close>. The payload is then the string from
  byte 3 on, trimmed: what is left of it when a run of white space characters has been cut
  from its start and another from its end, and it neither starts nor ends with a white
  space character; white space inside the payload stays. Otherwise the prefix is empty and
  the string is returned whole. The handler looks at the prefix first: with prefix \<^verbatim>\<open>py\<close> or
  \<^verbatim>\<open>sh\<close> the registered actions are not consulted, whatever their names. So the handler
  routes a request as the specification's classifier does.
\<close>

theorem parsePrefix_directive:
  "(fst (parsePrefix input) \<noteq> '''' \<longleftrightarrow>
      3 \<le> length input \<and> input ! 2 = CHR '' ''
      \<and> (take 2 input = ''py'' \<or> take 2 input = ''sh''))
   \<and> (3 \<le> length input \<and> input ! 2 = CHR '' ''
        \<and> (take 2 input = ''py'' \<or> take 2 input = ''sh'')
      \<longrightarrow> parsePrefix input = (take 2 input, TrimSpace (drop 3 input))
          \<and> (\<exists>l r. white l \<and> white r \<and> drop 3 input = l @ snd (parsePrefix input) @ r)
          \<and> \<not> starts_with_space (snd (parsePrefix input))
          \<and> \<not> ends_with_space (snd (parsePrefix input)))
   \<and> (fst (parsePrefix input) = '''' \<longrightarrow> parsePrefix input = ('''', input))
   \<and> (Action req = input \<and> 3 \<le> length input \<and> input ! 2 = CHR '' ''
        \<and> take 2 input = ''py''
      \<longrightarrow> dispatch env config actions req
            = handlePythonCommand env config (TrimSpace (drop 3 input)))
   \<and> (Action req = input \<and> 3 \<le> length input \<and> input ! 2 = CHR '' ''
        \<and> take 2 input = ''sh''
      \<longrightarrow> dispatch env config actions req = handleShellCommand env (TrimSpace (drop 3 input)))
   \<and> (Action req = input \<and> fst (parsePrefix input) = ''''
      \<longrightarrow> dispatch env config actions req
            = (case range_actions env actions req of
                 Some (tr, resp) \<Rightarrow> (tr, Ret resp)
               | None \<Rightarrow> handleConversational env config input))
   \<and> dispatch env config actions req
       = (case classify actions (Action req) of
            Directive code payload \<Rightarrow>
              if code = ''py'' then handlePythonCommand env config payload
              else handleShellCommand env payload
          | Registered act \<Rightarrow> (case run_action env act req of (tr, resp) \<Rightarrow> (tr, Ret resp))
          | Freeform action \<Rightarrow> handleConversational env config action)"
proof -
  have trim: "(\<exists>l r. white l \<and> white r \<and> drop 3 input = l @ snd (parsePrefix input) @ r)
              \<and> \<not> starts_with_space (snd (parsePrefix input))
              \<and> \<not> ends_with_space (snd (parsePrefix input))"
    if "3 \<le> length input \<and> input ! 2 = CHR '' ''
        \<and> (take 2 input = ''py'' \<or> take 2 input = ''sh'')"
  proof -
    have "snd (parsePrefix input) = TrimSpace (drop 3 input)"
      using that by (auto simp: parsePrefix_def Let_def)
    then show ?thesis using TrimSpace_spec [of "drop 3 input"] by simp
  qed
  have rest: "(fst (parsePrefix input) \<noteq> '''' \<longleftrightarrow>
      3 \<le> length input \<and> input ! 2 = CHR '' ''
      \<and> (take 2 input = ''py'' \<or> take 2 input = ''sh''))
   \<and> (3 \<le> length input \<and> input ! 2 = CHR '' ''
        \<and> (take 2 input = ''py'' \<or> take 2 input = ''sh'')
      \<longrightarrow> parsePrefix input = (take 2 input, TrimSpace (drop 3 input)))
   \<and> (fst (parsePrefix input) = '''' \<longrightarrow> parsePrefix input = ('''', input))
   \<and> (Action req = input \<and> 3 \<le> length input \<and> input ! 2 = CHR '' ''
        \<and> take 2 input = ''py''
      \<longrightarrow> dispatch env config actions req
            = handlePythonCommand env config (TrimSpace (drop 3 input)))
   \<and> (Action req = input \<and> 3 \<le> length input \<and> input ! 2 = CHR '' ''
        \<and> take 2 input = ''sh''
      \<longrightarrow> dispatch env config actions req = handleShellCommand env (TrimSpace (drop 3 input)))
   \<and> (Action req = input \<and> fst (parsePrefix input) = ''''
      \<longrightarrow> dispatch env config actions req
            = (case range_actions env actions req of
                 Some (tr, resp) \<Rightarrow> (tr, Ret resp)
               | None \<Rightarrow> handleConversational env config input))"
    by (auto simp: parsePrefix_def dispatch_def Let_def)
  show ?thesis
    using rest trim dispatch_classify [of env config actions req] by blast
qed

theorem parsePrefix_directive_witness:
  "spaced_action = ''py '' @ [CHR 0x09] @ ''1/0 + 2 '' @ [CHR 0xC2, CHR 0xA0, CHR 0x0A]
   \<and> range_actions demo_env
       [\<lparr>Name = spaced_action, Description = '''', Script = ''s.py'', Function = ''f''\<rparr>]
       \<lparr>Action = spaced_action, Params = []\<rparr> \<noteq> None
   \<and> parsePrefix spaced_action = (''py'', ''1/0 + 2'')
   \<and> \<not> starts_with_space ''1/0 + 2'' \<and> \<not> ends_with_space ''1/0 + 2''
   \<and> dispatch demo_env demo_config
        [\<lparr>Name = spaced_action, Description = '''', Script = ''s.py'', Function = ''f''\<rparr>]
        \<lparr>Action = spaced_action, Params = []\<rparr>
       = handlePythonCommand demo_env demo_config ''1/0 + 2''
   \<and> parsePrefix ''Py 1/0'' = ('''', ''Py 1/0'')"
proof -
  have d: "3 \<le> length spaced_action \<and> spaced_action ! 2 = CHR '' ''
           \<and> take 2 spaced_action = ''py''"
    by (simp add: spaced_action_def)
  note t = parsePrefix_directive
             [of spaced_action "\<lparr>Action = spaced_action, Params = []\<rparr>" demo_env demo_config
                 "[\<lparr>Name = spaced_action, Description = '''', Script = ''s.py'',
                    Function = ''f''\<rparr>]"]
  have p: "parsePrefix spaced_action = (''py'', ''1/0 + 2'')"
    using t d spaced_payload by simp
  have "\<not> starts_with_space (snd (parsePrefix spaced_action))
        \<and> \<not> ends_with_space (snd (parsePrefix spaced_action))"
    using t d by blast
  then have s: "\<not> starts_with_space ''1/0 + 2'' \<and> \<not> ends_with_space ''1/0 + 2''"
    by (simp add: p)
  have "dispatch demo_env demo_config
          [\<lparr>Name = spaced_action, Description = '''', Script = ''s.py'', Function = ''f''\<rparr>]
          \<lparr>Action = spaced_action, Params = []\<rparr>
        = handlePythonCommand demo_env demo_config ''1/0 + 2''"
    using t d spaced_payload by simp
  moreover have "parsePrefix ''Py 1/0'' = ('''', ''Py 1/0'')"
    using parsePrefix_directive [of "''Py 1/0''"] by simp
  ultimately show ?thesis using p s by (simp add: spaced_action_def)
qed


subsection \<open>What the stages write\<close>

lemma internal_filters:
  "list_all internal tr \<Longrightarrow> responses tr = [] \<and> audit_attempts tr = []"
proof (induction tr)
  case Nil
  then show ?case by (simp add: responses_def audit_attempts_def)
next
  case (Cons e tr)
  then show ?case by (cases e) (simp_all add: responses_def audit_attempts_def)
qed

lemma afterTempFile_internal: "afterTempFile env g code name = (tr, r) \<Longrightarrow> list_all internal tr"
  by (auto simp: afterTempFile_def
           split: option.splits prod.splits sum.splits go.splits
           dest: runPython_internal)

lemma afterPost_internal: "afterPost env rd = (tr, r) \<Longrightarrow> list_all internal tr"
  by (auto simp: afterPost_def
           split: option.splits prod.splits sum.splits go.splits bool.splits
           dest: afterTempFile_internal)

lemma generateAndRun_internal:
  "generateAndRun env config promptText = (tr, r) \<Longrightarrow> list_all internal tr"
  by (auto simp: generateAndRun_def Let_def split: prod.splits sum.splits
           dest: afterPost_internal)

lemma handleShellCommand_internal: "handleShellCommand env payload = (tr, r) \<Longrightarrow> list_all internal tr"
  by (auto simp: handleShellCommand_def
           split: option.splits prod.splits sum.splits go.splits
           dest: runPython_internal)

lemma run_action_internal: "run_action env act req = (tr, resp) \<Longrightarrow> list_all internal tr"
  by (auto simp: run_action_def split: option.splits prod.splits sum.splits
           dest: runPython_internal)

lemma dispatch_internal: "dispatch env config actions req = (tr, r) \<Longrightarrow> list_all internal tr"
  by (auto simp: dispatch_classify handlePythonCommand_def handleConversational_def
           split: Route.splits if_splits prod.splits
           dest: generateAndRun_internal handleShellCommand_internal run_action_internal)




lemma run_action_no_post: "run_action env act req = (tr, resp) \<Longrightarrow> remote_calls tr = []"
  by (auto simp: run_action_def remote_calls_def split: option.splits prod.splits sum.splits
           dest: runPython_no_post)

lemma run_action_executions:
  "marshal_params env (Params req) = Inr paramsJSON \<Longrightarrow>
   executions (fst (run_action env act req))
     = executions (fst (runPython env [Script act, Function act, paramsJSON]))"
  by (auto simp: run_action_def split: option.splits prod.splits sum.splits)

subsection \<open>The handler\<close>

lemma logToDB_filters:
  "responses (logToDB env a rq rs) = []"
  "audit_attempts (logToDB env a rq rs) = [DbInsert a rq rs]"
  "remote_calls (logToDB env a rq rs) = []"
  "executions (logToDB env a rq rs) = []"
  by (simp_all add: logToDB_def responses_def audit_attempts_def remote_calls_def
                    executions_def split: option.splits)

lemma filters_append:
  "responses (xs @ ys) = responses xs @ responses ys"
  "audit_attempts (xs @ ys) = audit_attempts xs @ audit_attempts ys"
  "remote_calls (xs @ ys) = remote_calls xs @ remote_calls ys"
  "executions (xs @ ys) = executions xs @ executions ys"
  by (simp_all add: responses_def audit_attempts_def remote_calls_def executions_def)

lemma actionHandler_post:
  "Method r = ''POST'' \<Longrightarrow> decode_request env (Body r) = Inr req \<Longrightarrow>
   dispatch env config actions req = (tr, Ret resp) \<Longrightarrow>
   actionHandler env config actions r
     = (tr @ logToDB env (Action req) req resp @ [JsonResponse resp], Returned)"
  by (simp add: actionHandler_def)

lemma dispatch_returns: "\<exists>tr resp. dispatch env config actions req = (tr, Ret resp)"
proof (cases "dispatch env config actions req")
  case (Pair tr r)
  then show ?thesis using dispatch_no_panic [of env config actions req tr] by (cases r) auto
qed


lemma internal_no_response: "list_all internal tr \<Longrightarrow> JsonResponse resp \<notin> set tr"
  by (auto simp: list_all_iff)

lemma logToDB_no_response: "JsonResponse resp \<notin> set (logToDB env a rq rs)"
  by (simp add: logToDB_def split: option.splits)

lemma actionHandler_main_found:
  "Method r = ''POST'' \<Longrightarrow> decode_request env (Body r) = Inr req \<Longrightarrow>
   List.find (\<lambda>act. Name act = Action req) actions = Some act \<Longrightarrow>
   run_action env act req = (tr, resp) \<Longrightarrow>
   actionHandler_main env config actions r =
     (case read_file env ''systemPrompt.txt'' of
        Inl err \<Rightarrow>
          (tr @ [ReadFile ''systemPrompt.txt'',
                 Fatal (''Error reading systemPrompt.txt: '' @ err_text err)], Exited)
      | Inr systemPrompt \<Rightarrow>
          (tr @ [ReadFile ''systemPrompt.txt''] @ logToDB env (Action req) req resp
           @ [JsonResponse resp], Returned))"
  by (simp add: actionHandler_main_def range_actions_find Let_def split: sum.splits)

lemma actionHandler_main_unregistered:
  "Method r = ''POST'' \<Longrightarrow> decode_request env (Body r) = Inr req \<Longrightarrow>
   \<forall>act \<in> set actions. Name act \<noteq> Action req \<Longrightarrow>
   actionHandler_main env config actions r =
     (case read_file env ''systemPrompt.txt'' of
        Inl err \<Rightarrow>
          ([ReadFile ''systemPrompt.txt'',
            Fatal (''Error reading systemPrompt.txt: '' @ err_text err)], Exited)
      | Inr systemPrompt \<Rightarrow>
          (case freeform_main env config systemPrompt (Action req) of
             (tr2, Panic, deferred) \<Rightarrow> ([ReadFile ''systemPrompt.txt''] @ tr2 @ deferred, Panicked)
           | (tr2, Ret resp, deferred) \<Rightarrow>
               ([ReadFile ''systemPrompt.txt''] @ tr2 @ logToDB env (Action req) req resp
                @ [JsonResponse resp] @ deferred, Returned)))"
  by (auto simp: actionHandler_main_def range_actions_unregistered Let_def
           split: sum.splits prod.splits go.splits)

subsection \<open>The audit insert does not reach the pipeline\<close>

lemma runPython_db: "runPython (env\<lparr>db_exec := d\<rparr>) args = runPython env args"
  by (simp add: runPython_def Let_def)

lemma unmarshal_map_db [simp]: "unmarshal_map (env\<lparr>db_exec := d\<rparr>) b = unmarshal_map env b"
  by (simp add: unmarshal_map_def)

lemma scan_lines_db:
  "scan_lines (env\<lparr>db_exec := d\<rparr>) lines n result = scan_lines env lines n result"
  by (induction n arbitrary: result)
     (simp_all add: Let_def
                cong: sum.case_cong option.case_cong prod.case_cong go.case_cong if_cong)

lemma extractValidJSON_db: "extractValidJSON (env\<lparr>db_exec := d\<rparr>) output = extractValidJSON env output"
  by (simp add: extractValidJSON_def scan_lines_db Let_def
          cong: sum.case_cong option.case_cong prod.case_cong go.case_cong bool.case_cong if_cong)

lemma geminiRespToMap_db: "geminiRespToMap (env\<lparr>db_exec := d\<rparr>) g = geminiRespToMap env g"
  by (simp add: geminiRespToMap_def Let_def
          cong: sum.case_cong option.case_cong prod.case_cong go.case_cong bool.case_cong if_cong)

lemma afterTempFile_db:
  "afterTempFile (env\<lparr>db_exec := d\<rparr>) g code name = afterTempFile env g code name"
  by (simp add: afterTempFile_def runPython_db extractValidJSON_db geminiRespToMap_db Let_def
          cong: sum.case_cong option.case_cong prod.case_cong go.case_cong bool.case_cong if_cong)

lemma afterPost_db: "afterPost (env\<lparr>db_exec := d\<rparr>) rd = afterPost env rd"
  by (simp add: afterPost_def afterTempFile_db geminiRespToMap_db Let_def
          cong: sum.case_cong option.case_cong prod.case_cong go.case_cong bool.case_cong if_cong)

lemma generateAndRun_db:
  "generateAndRun (env\<lparr>db_exec := d\<rparr>) config promptText = generateAndRun env config promptText"
  by (simp add: generateAndRun_def afterPost_db Let_def
          cong: sum.case_cong option.case_cong prod.case_cong go.case_cong bool.case_cong if_cong)

lemma handleShellCommand_db:
  "handleShellCommand (env\<lparr>db_exec := d\<rparr>) payload = handleShellCommand env payload"
  by (simp add: handleShellCommand_def runPython_db extractValidJSON_db Let_def
          cong: sum.case_cong option.case_cong prod.case_cong go.case_cong bool.case_cong if_cong)

lemma run_action_db: "run_action (env\<lparr>db_exec := d\<rparr>) act req = run_action env act req"
  by (simp add: run_action_def runPython_db Let_def
          cong: sum.case_cong option.case_cong prod.case_cong go.case_cong bool.case_cong if_cong)

lemma range_actions_db:
  "range_actions (env\<lparr>db_exec := d\<rparr>) actions req = range_actions env actions req"
  by (induction actions) (simp_all add: run_action_db)

lemma dispatch_db:
  "dispatch (env\<lparr>db_exec := d\<rparr>) config actions req = dispatch env config actions req"
  by (simp add: dispatch_def handlePythonCommand_def handleConversational_def
                generateAndRun_db handleShellCommand_db range_actions_db Let_def
          cong: sum.case_cong option.case_cong prod.case_cong go.case_cong bool.case_cong if_cong)

lemma decoded_post_one_response_one_audit:
  "Method r = ''POST'' \<Longrightarrow> decode_request env (Body r) = Inr req \<Longrightarrow>
     snd (actionHandler env config actions r) = Returned
   \<and> length (responses (fst (actionHandler env config actions r))) = 1
   \<and> length (audit_attempts (fst (actionHandler env config actions r))) = 1
   \<and> responses (fst (actionHandler (env\<lparr>db_exec := d\<rparr>) config actions r))
       = responses (fst (actionHandler env config actions r))
   \<and> (\<forall>resp. JsonResponse resp \<in> set (fst (actionHandler env config actions r)) \<longrightarrow>
          audit_attempts (fst (actionHandler env config actions r))
            = [DbInsert (Action req) req resp]
        \<and> last (fst (actionHandler env config actions r)) = JsonResponse resp
        \<and> (\<forall>err. db_exec env (Action req) req resp = Some err \<longrightarrow>
               Log (''Error logging to database: '' @ err_text err)
                 \<in> set (fst (actionHandler env config actions r))))"
proof -
  assume m: "Method r = ''POST''" and d: "decode_request env (Body r) = Inr req"
  obtain tr resp where disp: "dispatch env config actions req = (tr, Ret resp)"
    using dispatch_returns by blast
  have int: "list_all internal tr" using disp by (rule dispatch_internal)
  have h: "actionHandler env config actions r
             = (tr @ logToDB env (Action req) req resp @ [JsonResponse resp], Returned)"
    using m d disp by (rule actionHandler_post)
  have d': "decode_request (env\<lparr>db_exec := d\<rparr>) (Body r) = Inr req" using d by simp
  have disp': "dispatch (env\<lparr>db_exec := d\<rparr>) config actions req = (tr, Ret resp)"
    using disp by (simp add: dispatch_db)
  have h': "actionHandler (env\<lparr>db_exec := d\<rparr>) config actions r
             = (tr @ logToDB (env\<lparr>db_exec := d\<rparr>) (Action req) req resp
                @ [JsonResponse resp], Returned)"
    using m d' disp' by (rule actionHandler_post)
  have r1: "responses [JsonResponse resp] = [JsonResponse resp]"
    and a1: "audit_attempts [JsonResponse resp] = []"
    by (simp_all add: responses_def audit_attempts_def)
  have resp_only: "resp' = resp"
    if "JsonResponse resp' \<in> set (fst (actionHandler env config actions r))" for resp'
    using that internal_no_response [OF int, of resp'] logToDB_no_response [of resp' env]
    by (auto simp: h)
  have logged: "Log (''Error logging to database: '' @ err_text err)
                  \<in> set (fst (actionHandler env config actions r))"
    if "db_exec env (Action req) req resp = Some err" for err
    using that by (simp add: h logToDB_def)
  show ?thesis
  proof (intro conjI allI impI)
    show "snd (actionHandler env config actions r) = Returned" by (simp add: h)
    show "length (responses (fst (actionHandler env config actions r))) = 1"
      by (simp add: h filters_append internal_filters [OF int] logToDB_filters r1)
    show "length (audit_attempts (fst (actionHandler env config actions r))) = 1"
      by (simp add: h filters_append internal_filters [OF int] logToDB_filters a1)
    show "responses (fst (actionHandler (env\<lparr>db_exec := d\<rparr>) config actions r))
            = responses (fst (actionHandler env config actions r))"
      by (simp add: h h' filters_append logToDB_filters)
  next
    fix resp'
    assume "JsonResponse resp' \<in> set (fst (actionHandler env config actions r))"
    then have e: "resp' = resp" by (rule resp_only)
    show "audit_attempts (fst (actionHandler env config actions r))
            = [DbInsert (Action req) req resp']"
      by (simp add: e h filters_append internal_filters [OF int] logToDB_filters a1)
    show "last (fst (actionHandler env config actions r)) = JsonResponse resp'"
      by (simp add: e h)
    fix err
    assume "db_exec env (Action req) req resp' = Some err"
    then show "Log (''Error logging to database: '' @ err_text err)
                 \<in> set (fst (actionHandler env config actions r))"
      using logged e by simp
  qed
qed

text \<open>
  C2, as amended. A request that is not a POST gets status 405 and the one response
  \<^verbatim>\<open>Method not allowed\<close>; a POST whose body does not decode gets status 400 and the one
  response \<^verbatim>\<open>Invalid JSON\<close>; for neither is there an audit insert. A POST request whose body
  decodes gets exactly one response and exactly one audit insert, made with the request and
  that response before the response is written, and the handler returns. The response does
  not depend on what the insert returns, and an insert that returns an error is logged.
\<close>

theorem one_response_one_audit:
  "(Method r \<noteq> ''POST'' \<longrightarrow>
      actionHandler env config actions r
        = ([WriteHeader 405, JsonResponse [(''error'', JString ''Method not allowed'')]],
           Returned)
      \<and> length (responses (fst (actionHandler env config actions r))) = 1
      \<and> audit_attempts (fst (actionHandler env config actions r)) = [])
   \<and> (Method r = ''POST'' \<and> decode_request env (Body r) = Inl derr \<longrightarrow>
      actionHandler env config actions r
        = ([WriteHeader 400, JsonResponse [(''error'', JString ''Invalid JSON'')]], Returned)
      \<and> length (responses (fst (actionHandler env config actions r))) = 1
      \<and> audit_attempts (fst (actionHandler env config actions r)) = [])
   \<and> (Method r = ''POST'' \<and> decode_request env (Body r) = Inr req \<longrightarrow>
       snd (actionHandler env config actions r) = Returned
     \<and> length (responses (fst (actionHandler env config actions r))) = 1
     \<and> length (audit_attempts (fst (actionHandler env config actions r))) = 1
     \<and> responses (fst (actionHandler (env\<lparr>db_exec := d\<rparr>) config actions r))
         = responses (fst (actionHandler env config actions r))
     \<and> (\<forall>resp. JsonResponse resp \<in> set (fst (actionHandler env config actions r)) \<longrightarrow>
            audit_attempts (fst (actionHandler env config actions r))
              = [DbInsert (Action req) req resp]
          \<and> last (fst (actionHandler env config actions r)) = JsonResponse resp
          \<and> (\<forall>err. db_exec env (Action req) req resp = Some err \<longrightarrow>
                 Log (''Error logging to database: '' @ err_text err)
                   \<in> set (fst (actionHandler env config actions r)))))"
proof (intro conjI impI)
  assume "Method r \<noteq> ''POST''"
  then show "actionHandler env config actions r
               = ([WriteHeader 405, JsonResponse [(''error'', JString ''Method not allowed'')]],
                  Returned)"
    "length (responses (fst (actionHandler env config actions r))) = 1"
    "audit_attempts (fst (actionHandler env config actions r)) = []"
    by (simp_all add: actionHandler_def responses_def audit_attempts_def)
next
  assume "Method r = ''POST'' \<and> decode_request env (Body r) = Inl derr"
  then show "actionHandler env config actions r
               = ([WriteHeader 400, JsonResponse [(''error'', JString ''Invalid JSON'')]],
                  Returned)"
    "length (responses (fst (actionHandler env config actions r))) = 1"
    "audit_attempts (fst (actionHandler env config actions r)) = []"
    by (simp_all add: actionHandler_def responses_def audit_attempts_def)
next
  assume "Method r = ''POST'' \<and> decode_request env (Body r) = Inr req"
  then have m: "Method r = ''POST''" and dr: "decode_request env (Body r) = Inr req"
    by simp_all
  note t = decoded_post_one_response_one_audit [OF m dr, of config actions d]
  from t show "snd (actionHandler env config actions r) = Returned" by blast
  from t show "length (responses (fst (actionHandler env config actions r))) = 1" by blast
  from t show "length (audit_attempts (fst (actionHandler env config actions r))) = 1"
    by blast
  from t show "responses (fst (actionHandler (env\<lparr>db_exec := d\<rparr>) config actions r))
                 = responses (fst (actionHandler env config actions r))" by blast
  from t show "\<forall>resp. JsonResponse resp \<in> set (fst (actionHandler env config actions r)) \<longrightarrow>
            audit_attempts (fst (actionHandler env config actions r))
              = [DbInsert (Action req) req resp]
          \<and> last (fst (actionHandler env config actions r)) = JsonResponse resp
          \<and> (\<forall>err. db_exec env (Action req) req resp = Some err \<longrightarrow>
                 Log (''Error logging to database: '' @ err_text err)
                   \<in> set (fst (actionHandler env config actions r)))" by blast
qed

lemma demo_decode:
  "rq \<in> set demo_requests \<Longrightarrow> decode_request demo_env (Body (demo_post rq)) = Inr rq"
  by (auto simp: demo_env_def demo_post_def demo_requests_def demo_request_body_def
                 demo_params_json_def dq_def)

lemma demo_method: "Method (demo_post rq) = ''POST''"
  by (simp add: demo_post_def)

lemma demo_not_json: "decode_request demo_env ''not json'' = Inl (GoError False ''invalid character'')"
  by (simp add: demo_env_def demo_requests_def demo_request_body_def)

theorem one_response_one_audit_witness:
  "Method \<lparr>Method = ''PUT'', Body = ''''\<rparr> \<noteq> ''POST''
   \<and> actionHandler demo_env demo_config demo_actions \<lparr>Method = ''PUT'', Body = ''''\<rparr>
       = ([WriteHeader 405, JsonResponse [(''error'', JString ''Method not allowed'')]], Returned)
   \<and> decode_request demo_env (Body \<lparr>Method = ''POST'', Body = ''not json''\<rparr>)
       = Inl (GoError False ''invalid character'')
   \<and> actionHandler demo_env demo_config demo_actions \<lparr>Method = ''POST'', Body = ''not json''\<rparr>
       = ([WriteHeader 400, JsonResponse [(''error'', JString ''Invalid JSON'')]], Returned)
   \<and> Method (demo_post \<lparr>Action = ''get_time'', Params = []\<rparr>) = ''POST''
   \<and> decode_request demo_env (Body (demo_post \<lparr>Action = ''get_time'', Params = []\<rparr>))
       = Inr \<lparr>Action = ''get_time'', Params = []\<rparr>
   \<and> snd (actionHandler demo_env demo_config demo_actions
            (demo_post \<lparr>Action = ''get_time'', Params = []\<rparr>)) = Returned
   \<and> length (responses (fst (actionHandler demo_env demo_config demo_actions
                               (demo_post \<lparr>Action = ''get_time'', Params = []\<rparr>)))) = 1
   \<and> length (audit_attempts (fst (actionHandler demo_env demo_config demo_actions
                                    (demo_post \<lparr>Action = ''get_time'', Params = []\<rparr>)))) = 1
   \<and> responses (fst (actionHandler demo_db_down_env demo_config demo_actions
                       (demo_post \<lparr>Action = ''get_time'', Params = []\<rparr>)))
       = responses (fst (actionHandler demo_env demo_config demo_actions
                           (demo_post \<lparr>Action = ''get_time'', Params = []\<rparr>)))"
proof -
  have "actionHandler demo_env demo_config demo_actions \<lparr>Method = ''PUT'', Body = ''''\<rparr>
          = ([WriteHeader 405, JsonResponse [(''error'', JString ''Method not allowed'')]],
             Returned)"
    using one_response_one_audit
            [of "\<lparr>Method = ''PUT'', Body = ''''\<rparr>" demo_env demo_config demo_actions]
    by simp
  moreover have "actionHandler demo_env demo_config demo_actions
                   \<lparr>Method = ''POST'', Body = ''not json''\<rparr>
          = ([WriteHeader 400, JsonResponse [(''error'', JString ''Invalid JSON'')]], Returned)"
    using one_response_one_audit
            [of "\<lparr>Method = ''POST'', Body = ''not json''\<rparr>" demo_env demo_config demo_actions
                "GoError False ''invalid character''"]
          demo_not_json
    by simp
  moreover have "snd (actionHandler demo_env demo_config demo_actions
            (demo_post \<lparr>Action = ''get_time'', Params = []\<rparr>)) = Returned
   \<and> length (responses (fst (actionHandler demo_env demo_config demo_actions
                               (demo_post \<lparr>Action = ''get_time'', Params = []\<rparr>)))) = 1
   \<and> length (audit_attempts (fst (actionHandler demo_env demo_config demo_actions
                                    (demo_post \<lparr>Action = ''get_time'', Params = []\<rparr>)))) = 1
   \<and> responses (fst (actionHandler demo_db_down_env demo_config demo_actions
                       (demo_post \<lparr>Action = ''get_time'', Params = []\<rparr>)))
       = responses (fst (actionHandler demo_env demo_config demo_actions
                           (demo_post \<lparr>Action = ''get_time'', Params = []\<rparr>)))"
    using one_response_one_audit
            [of "demo_post \<lparr>Action = ''get_time'', Params = []\<rparr>" demo_env demo_config
                demo_actions _ "\<lparr>Action = ''get_time'', Params = []\<rparr>"
                "\<lambda>action request response. Some (GoError False ''database is locked'')"]
          demo_decode [of "\<lparr>Action = ''get_time'', Params = []\<rparr>"] demo_method
    by (simp add: demo_db_down_env_def demo_requests_def)
  ultimately show ?thesis
    using demo_not_json demo_decode [of "\<lparr>Action = ''get_time'', Params = []\<rparr>"] demo_method
    by (simp add: demo_requests_def)
qed

text \<open>
  C2 as stated fails: a request that is not a POST gets its response from the first guard
  of the handler, which returns before \<^verbatim>\<open>logToDB\<close>.
\<close>

theorem get_request_not_audited:
  "audit_attempts (fst (actionHandler demo_env demo_config demo_actions
                         \<lparr>Method = ''GET'', Body = ''''\<rparr>)) = []
   \<and> responses (fst (actionHandler demo_env demo_config demo_actions
                       \<lparr>Method = ''GET'', Body = ''''\<rparr>))
       = [JsonResponse [(''error'', JString ''Method not allowed'')]]"
  by (simp add: actionHandler_def audit_attempts_def responses_def)

text \<open>
  C5. When the action string has no directive prefix and \<open>act\<close> is the first registered
  action of that name, the handler calls no remote service, and, when the parameters
  marshal to \<open>paramsJSON\<close>, every interpreter it starts gets the arguments
  \<open>[Script act, Function act, paramsJSON]\<close>, starting with \<^verbatim>\<open>python3\<close> and going down the
  candidates as \<^verbatim>\<open>runPython\<close> does. The handler of \<^verbatim>\<open>hartley-main.go\<close>, which has no prefixes,
  does the same.
\<close>

theorem registered_action_runs_locally:
  "Method r = ''POST'' \<Longrightarrow> decode_request env (Body r) = Inr req \<Longrightarrow>
   List.find (\<lambda>act. Name act = Action req) actions = Some act \<Longrightarrow>
     (fst (parsePrefix (Action req)) = '''' \<longrightarrow>
        remote_calls (fst (actionHandler env config actions r)) = []
        \<and> (\<forall>paramsJSON. marshal_params env (Params req) = Inr paramsJSON \<longrightarrow>
              executions (fst (actionHandler env config actions r))
                = map (\<lambda>c. Exec c [Script act, Function act, paramsJSON])
                      (fst (try_candidates env [''python3'', ''python'', ''py'']
                              [Script act, Function act, paramsJSON]))
            \<and> hd (executions (fst (actionHandler env config actions r)))
                = Exec ''python3'' [Script act, Function act, paramsJSON]))
   \<and> remote_calls (fst (actionHandler_main env config actions r)) = []
   \<and> (\<forall>paramsJSON. marshal_params env (Params req) = Inr paramsJSON \<longrightarrow>
          executions (fst (actionHandler_main env config actions r))
            = map (\<lambda>c. Exec c [Script act, Function act, paramsJSON])
                  (fst (try_candidates env [''python3'', ''python'', ''py'']
                          [Script act, Function act, paramsJSON]))
        \<and> hd (executions (fst (actionHandler_main env config actions r)))
            = Exec ''python3'' [Script act, Function act, paramsJSON])"
proof -
  assume m: "Method r = ''POST''" and d: "decode_request env (Body r) = Inr req"
    and f: "List.find (\<lambda>act. Name act = Action req) actions = Some act"
  obtain tr resp where ra: "run_action env act req = (tr, resp)"
    by (cases "run_action env act req")
  have np: "remote_calls tr = []" using ra by (rule run_action_no_post)
  have ex: "executions tr = executions (fst (runPython env [Script act, Function act, pj]))"
    if "marshal_params env (Params req) = Inr pj" for pj
    using run_action_executions [OF that, of act] ra by simp
  have rest: "remote_calls [JsonResponse resp] = []" "executions [JsonResponse resp] = []"
    "remote_calls [ReadFile ''systemPrompt.txt''] = []"
    "executions [ReadFile ''systemPrompt.txt''] = []"
    "remote_calls [ReadFile ''systemPrompt.txt'', Fatal msg] = []"
    "executions [ReadFile ''systemPrompt.txt'', Fatal msg] = []" for msg
    by (simp_all add: remote_calls_def executions_def)
  have b: "actionHandler env config actions r
             = (tr @ logToDB env (Action req) req resp @ [JsonResponse resp], Returned)"
    if "fst (parsePrefix (Action req)) = ''''"
  proof -
    have "dispatch env config actions req = (tr, Ret resp)"
      using that f ra
      by (cases "parsePrefix (Action req)") (simp add: dispatch_def range_actions_find)
    then show ?thesis using m d by (simp add: actionHandler_post)
  qed
  have mn: "remote_calls (fst (actionHandler_main env config actions r)) = []
            \<and> executions (fst (actionHandler_main env config actions r)) = executions tr"
    using np unfolding remote_calls_def executions_def
    by (simp add: actionHandler_main_found [OF m d f ra] logToDB_def
             split: sum.splits option.splits)
  have hd3: "hd (executions (fst (runPython env args))) = Exec ''python3'' args" for args
    using runPython_first [of env args] by auto
  show ?thesis
    using b mn np ex hd3
    by (auto simp: filters_append logToDB_filters rest runPython_try_candidates)
qed

lemma demo_get_time_found:
  "List.find (\<lambda>act. Name act = Action \<lparr>Action = ''get_time'', Params = []\<rparr>) demo_actions
     = Some \<lparr>Name = ''get_time'', Description = ''Current time'',
             Script = ''python/action_runner.py'', Function = ''get_time''\<rparr>"
  by (simp add: demo_actions_def)

lemma demo_try_get_time:
  "fst (try_candidates demo_env [''python3'', ''python'', ''py'']
          [''python/action_runner.py'', ''get_time'', ''{}'']) = [''python3'', ''python'']"
  by (simp add: demo_env_def not_found_def demo_not_found_def)

theorem registered_action_runs_locally_witness:
  "fst (parsePrefix ''get_time'') = ''''
   \<and> marshal_params demo_env [] = Inr ''{}''
   \<and> remote_calls (fst (actionHandler demo_env demo_config demo_actions
                          (demo_post \<lparr>Action = ''get_time'', Params = []\<rparr>))) = []
   \<and> executions (fst (actionHandler demo_env demo_config demo_actions
                        (demo_post \<lparr>Action = ''get_time'', Params = []\<rparr>)))
       = [Exec ''python3'' [''python/action_runner.py'', ''get_time'', ''{}''],
          Exec ''python'' [''python/action_runner.py'', ''get_time'', ''{}'']]"
proof -
  have p: "fst (parsePrefix ''get_time'') = ''''" by (simp add: parsePrefix_def)
  have mp: "marshal_params demo_env [] = Inr ''{}''"
    by (simp add: demo_env_def demo_params_json_def)
  note t = registered_action_runs_locally
             [OF demo_method demo_decode demo_get_time_found, of demo_config]
  have "\<lparr>Action = ''get_time'', Params = []\<rparr> \<in> set demo_requests"
    by (simp add: demo_requests_def)
  from t [OF this] p mp demo_try_get_time show ?thesis by simp
qed

text \<open>
  C10. Two POST requests with the same action string, registered under no name, get the
  same response from the same host, whatever their parameters: the pipeline reads only the
  action string. This holds for both handlers.
\<close>

theorem params_do_not_interfere:
  "Method r1 = ''POST'' \<Longrightarrow> Method r2 = ''POST'' \<Longrightarrow>
   decode_request env (Body r1) = Inr req1 \<Longrightarrow> decode_request env (Body r2) = Inr req2 \<Longrightarrow>
   Action req1 = Action req2 \<Longrightarrow> \<forall>act \<in> set actions. Name act \<noteq> Action req1 \<Longrightarrow>
     dispatch env config actions req1 = dispatch env config actions req2
   \<and> responses (fst (actionHandler env config actions r1))
       = responses (fst (actionHandler env config actions r2))
   \<and> snd (actionHandler env config actions r1) = snd (actionHandler env config actions r2)
   \<and> responses (fst (actionHandler_main env config actions r1))
       = responses (fst (actionHandler_main env config actions r2))
   \<and> snd (actionHandler_main env config actions r1)
       = snd (actionHandler_main env config actions r2)"
proof -
  assume m1: "Method r1 = ''POST''" and m2: "Method r2 = ''POST''"
    and d1: "decode_request env (Body r1) = Inr req1"
    and d2: "decode_request env (Body r2) = Inr req2"
    and a: "Action req1 = Action req2"
    and u1: "\<forall>act \<in> set actions. Name act \<noteq> Action req1"
  from u1 a have u2: "\<forall>act \<in> set actions. Name act \<noteq> Action req2" by simp
  have disp: "dispatch env config actions req1 = dispatch env config actions req2"
    by (simp add: dispatch_unregistered [OF u1] dispatch_unregistered [OF u2] a
             split: prod.splits)
  obtain tr resp where dr: "dispatch env config actions req2 = (tr, Ret resp)"
    using dispatch_returns by blast
  have h1: "actionHandler env config actions r1
              = (tr @ logToDB env (Action req1) req1 resp @ [JsonResponse resp], Returned)"
    using m1 d1 dr disp by (simp add: actionHandler_post)
  have h2: "actionHandler env config actions r2
              = (tr @ logToDB env (Action req2) req2 resp @ [JsonResponse resp], Returned)"
    using m2 d2 dr by (simp add: actionHandler_post)
  have mn: "responses (fst (actionHandler_main env config actions r1))
              = responses (fst (actionHandler_main env config actions r2))
            \<and> snd (actionHandler_main env config actions r1)
              = snd (actionHandler_main env config actions r2)"
    by (auto simp: actionHandler_main_unregistered [OF m1 d1 u1]
                   actionHandler_main_unregistered [OF m2 d2 u2] a responses_def
                   logToDB_def
             split: sum.splits prod.splits go.splits option.splits)
  show ?thesis
    using disp mn by (simp add: h1 h2 filters_append logToDB_filters)
qed

lemma demo_unregistered: "\<forall>act \<in> set demo_actions. Name act \<noteq> ''What is 1/0?''"
  by (simp add: demo_actions_def)

theorem params_do_not_interfere_witness:
  "Params \<lparr>Action = ''What is 1/0?'', Params = []\<rparr>
     \<noteq> Params \<lparr>Action = ''What is 1/0?'', Params = [(''n'', JNumber 1)]\<rparr>
   \<and> responses (fst (actionHandler demo_env demo_config demo_actions
                       (demo_post \<lparr>Action = ''What is 1/0?'', Params = []\<rparr>)))
       = responses (fst (actionHandler demo_env demo_config demo_actions
                           (demo_post \<lparr>Action = ''What is 1/0?'', Params = [(''n'', JNumber 1)]\<rparr>)))
   \<and> responses (fst (actionHandler_main demo_env demo_config demo_actions
                       (demo_post \<lparr>Action = ''What is 1/0?'', Params = []\<rparr>)))
       = responses (fst (actionHandler_main demo_env demo_config demo_actions
                           (demo_post \<lparr>Action = ''What is 1/0?'', Params = [(''n'', JNumber 1)]\<rparr>)))"
proof -
  have r1: "\<lparr>Action = ''What is 1/0?'', Params = []\<rparr> \<in> set demo_requests"
    and r2: "\<lparr>Action = ''What is 1/0?'', Params = [(''n'', JNumber 1)]\<rparr> \<in> set demo_requests"
    by (simp_all add: demo_requests_def)
  have u: "\<forall>act \<in> set demo_actions.
             Name act \<noteq> Action \<lparr>Action = ''What is 1/0?'', Params = []\<rparr>"
    using demo_unregistered by simp
  from params_do_not_interfere
         [OF demo_method demo_method demo_decode [OF r1] demo_decode [OF r2] _ u, of demo_config]
  show ?thesis by simp
qed


subsection \<open>What each failure becomes\<close>

































end
